theory Spec2Isabelle
  imports Main
begin

section \<open>Tokens, diagnostics and the AST data model\<close>

text \<open>
  The declaration parser of \<^verbatim>\<open>lib/Parse/ParseDecl.cpp\<close> is embedded as state-passing
  functions over a parser state: the token stream, the diagnostics emitted so far, the
  arena of AST nodes, the current declaration context and the scope registry.
  Pointers into the arena are natural numbers; a nullable pointer is an \<open>option\<close>.
\<close>

type_synonym SourceLoc = nat
type_synonym Identifier = string

datatype tok =
    tok_unknown | tok_eof | tok_identifier | tok_oper | tok_numeric_constant
  | tok_l_paren | tok_l_paren_space | tok_r_paren | tok_l_brace | tok_r_brace
  | tok_l_square | tok_r_square | tok_comma | tok_colon | tok_coloncolon
  | tok_period | tok_equal | tok_arrow
  | tok_kw_import | tok_kw_extension | tok_kw_var | tok_kw_typealias
  | tok_kw_oneof | tok_kw_struct | tok_kw_protocol | tok_kw_func

record Token =
  TokKind :: tok
  TokText :: string
  TokLoc :: SourceLoc

datatype Type =
    DependentType
  | TupleType "(Type \<times> Identifier) list"
  | FunctionType Type Type
  | NameAliasType nat
  | OneOfType nat
  | ProtocolType nat

datatype diag_id =
    expected_decl | duplicate_attribute | expected_precedence_value
  | invalid_precedence | unknown_attribute | expected_attribute_name
  | expected_in_attribute_list | opening_bracket | import_inner_scope
  | disallowed_var_decl | operator_in_decl | decl_expected_module_name
  | expected_identifier_in_decl | import_attributes | expected_lbrace_oneof_type
  | expected_rbrace_extension | opening_brace | expected_lparen_var_name
  | expected_rparen_var_name | opening_paren | expected_colon_in_typealias
  | expected_type_in_typealias | invalid_index_in_var_name_path | non_simple_var
  | func_decl_without_paren | invalid_diagnostic | expected_type_oneof_element
  | expected_rbrace_oneof_type | oneof_attributes | duplicate_oneof_element
  | previous_definition | expected_lbrace_struct | struct_unnamed_member
  | expected_rbrace_struct | expected_lbrace_protocol_type
  | expected_protocol_member | protocol_attributes | expected_type

datatype diag_arg = ArgText string | ArgType Type

type_synonym Diagnostic = "SourceLoc \<times> diag_id \<times> diag_arg list"

datatype Associativity = AssocNone | AssocLeft | AssocRight

record DeclAttributes =
  LSquareLoc :: SourceLoc
  RSquareLoc :: SourceLoc
  Infix :: "(nat \<times> Associativity) option"

datatype DeclVarName =
    SimpleName Identifier SourceLoc
  | NestedName SourceLoc "DeclVarName list" SourceLoc

datatype DeclContext =
    TranslationUnitDC
  | FuncExprDC nat
  | OneOfTypeDC nat
  | ProtocolTypeDC nat

type_synonym DeclPtr = "nat option"

datatype DeclKind =
    ImportDecl "(Identifier \<times> SourceLoc) list"
  | ExtensionDecl Type "DeclPtr list"
  | TypeAliasDecl
  | VarDecl "DeclVarName option" "nat option" DeclAttributes
  | ElementRefDecl nat "nat list"
  | FuncDecl "nat option" DeclAttributes
  | OneOfElementDecl "Type option"

text \<open>
  A declaration node: \<open>Kind\<close> holds the variant and the fields fixed at construction
  (import path, extension members, nested name, initializer, attributes, access path,
  argument type); the other fields are those the parser assigns after construction
  (\<^verbatim>\<open>setDeclContext\<close>, \<^verbatim>\<open>setType\<close>, \<^verbatim>\<open>setUnderlyingType\<close>, \<^verbatim>\<open>setTypeAliasLoc\<close>).
  \<open>Ty\<close> is the type of a value declaration, \<open>UnderlyingTy\<close> the underlying type of a
  type alias (\<open>None\<close> while the alias is a stub).
\<close>

record Decl =
  Kind :: DeclKind
  LocStart :: SourceLoc
  Name :: Identifier
  Ty :: "Type option"
  Context :: DeclContext
  UnderlyingTy :: "Type option"

record OneOfTypeObj =
  OneOfLoc :: SourceLoc
  Elements :: "nat list"
  OneOfParent :: DeclContext

record ProtocolTypeObj =
  ProtocolLoc :: SourceLoc
  ProtoElements :: "nat list"
  ProtoParent :: DeclContext

record ScopeInfoObj =
  Bindings :: "(Identifier \<times> nat) list"
  UnresolvedTypeList :: "nat list"
  UnresolvedScopedTypeList :: "nat list"

record pstate =
  Toks :: "Token list"
  Diags :: "Diagnostic list"
  DeclStore :: "nat \<Rightarrow> Decl"
  NextDecl :: nat
  OneOfStore :: "nat \<Rightarrow> OneOfTypeObj"
  NextOneOf :: nat
  ProtocolStore :: "nat \<Rightarrow> ProtocolTypeObj"
  NextProtocol :: nat
  FuncExprBody :: "nat \<Rightarrow> nat option"
  NextFuncExpr :: nat
  CurDeclContext :: DeclContext
  ScopeInfo :: ScopeInfoObj

section \<open>The token stream and the diagnostic engine\<close>

text \<open>
  The lexer, the token helpers of the parser and the diagnostic engine live outside
  \<^verbatim>\<open>ParseDecl.cpp\<close>. They are modelled here from the interface the specification
  gives them: the current token (kind, text, location), consume operations, and
  fire-and-forget diagnostics keyed by location and message kind.
\<close>

definition eofToken :: Token where
  "eofToken = \<lparr>TokKind = tok_eof, TokText = [], TokLoc = 0\<rparr>"

definition Tok :: "pstate \<Rightarrow> Token" where
  \<comment> \<open>Modelled from the spec: the parser's current token; past the end of the input the lexer keeps returning EOF.\<close>
  "Tok st = (case Toks st of [] \<Rightarrow> eofToken | t # _ \<Rightarrow> t)"

definition TokIs :: "pstate \<Rightarrow> tok \<Rightarrow> bool" where
  "TokIs st K = (TokKind (Tok st) = K)"

definition consumeToken :: "pstate \<Rightarrow> pstate" where
  \<comment> \<open>Modelled from the spec: the consume operation of the token stream.\<close>
  "consumeToken st = st\<lparr>Toks := tl (Toks st)\<rparr>"

definition consumeIf :: "tok \<Rightarrow> pstate \<Rightarrow> bool \<times> pstate" where
  \<comment> \<open>Modelled from the spec: consume the current token when it has kind K, and say whether it did.\<close>
  "consumeIf K st = (if TokIs st K then (True, consumeToken st) else (False, st))"

definition diagnose :: "SourceLoc \<Rightarrow> diag_id \<Rightarrow> diag_arg list \<Rightarrow> pstate \<Rightarrow> pstate" where
  \<comment> \<open>Modelled from the spec: emit(location, diagnostic-kind, arguments); nothing is returned.\<close>
  "diagnose L D Args st = st\<lparr>Diags := Diags st @ [(L, D, Args)]\<rparr>"

fun skipToks :: "tok \<Rightarrow> tok \<Rightarrow> Token list \<Rightarrow> Token list" where
  "skipToks T1 T2 [] = []"
| "skipToks T1 T2 (t # ts) =
     (if TokKind t = tok_eof \<or> TokKind t = T1 \<or> TokKind t = T2 then t # ts
      else skipToks T1 T2 ts)"

definition skipUntil :: "tok \<Rightarrow> tok \<Rightarrow> pstate \<Rightarrow> pstate" where
  \<comment> \<open>Modelled from the spec: resynchronise by consuming tokens until the current one is T1, T2 or EOF;
      \<open>tok_unknown\<close> for both means do not skip.\<close>
  "skipUntil T1 T2 st =
     (if T1 = tok_unknown \<and> T2 = tok_unknown then st
      else st\<lparr>Toks := skipToks T1 T2 (Toks st)\<rparr>)"

definition parseToken :: "tok \<Rightarrow> diag_id \<Rightarrow> pstate \<Rightarrow> bool \<times> pstate" where
  \<comment> \<open>Modelled from the spec: consume a token of kind K, or diagnose D at the current token and return true.\<close>
  "parseToken K D st =
     (if TokIs st K then (False, consumeToken st)
      else (True, diagnose (TokLoc (Tok st)) D [] st))"

definition parseMatchingToken ::
  "tok \<Rightarrow> diag_id \<Rightarrow> SourceLoc \<Rightarrow> diag_id \<Rightarrow> pstate \<Rightarrow> bool \<times> pstate" where
  \<comment> \<open>Modelled from the spec: as parseToken, and on a mismatch a second diagnostic points back at the opening token.\<close>
  "parseMatchingToken K ErrorDiag OtherLoc OtherNote st =
     (case parseToken K ErrorDiag st of
        (True, st1) \<Rightarrow> (True, diagnose OtherLoc OtherNote [] st1)
      | (False, st1) \<Rightarrow> (False, st1))"

definition parseIdentifier ::
  "diag_id \<Rightarrow> diag_arg list \<Rightarrow> pstate \<Rightarrow> Identifier option \<times> pstate" where
  \<comment> \<open>Modelled from the spec: an identifier token yields its text as the name; anything else is diagnosed
      and nothing is consumed. None stands for the C++ result true.\<close>
  "parseIdentifier D Args st =
     (if TokIs st tok_identifier then (Some (TokText (Tok st)), consumeToken st)
      else (None, diagnose (TokLoc (Tok st)) D Args st))"

section \<open>Attributes\<close>

definition isInfix :: "DeclAttributes \<Rightarrow> bool" where
  "isInfix A = (Infix A \<noteq> None)"

definition attrsEmpty :: "DeclAttributes \<Rightarrow> bool" where
  \<comment> \<open>Modelled from the spec: the attribute record is empty when no fixity was recorded.\<close>
  "attrsEmpty A = (\<not> isInfix A)"

definition noAttributes :: DeclAttributes where
  "noAttributes = \<lparr>LSquareLoc = 0, RSquareLoc = 0, Infix = None\<rparr>"

definition isInfixAttr :: "Token \<Rightarrow> Associativity option" where
  "isInfixAttr T =
     (if TokText T = ''infix_left'' then Some AssocLeft
      else if TokText T = ''infix_right'' then Some AssocRight
      else if TokText T = ''infix'' then Some AssocNone
      else None)"

definition digitVal :: "char \<Rightarrow> nat" where
  "digitVal c = of_char c - of_char CHR ''0''"

definition isDigit :: "char \<Rightarrow> bool" where
  "isDigit c = (of_char CHR ''0'' \<le> (of_char c :: nat) \<and> (of_char c :: nat) \<le> of_char CHR ''9'')"

definition getAsInteger :: "string \<Rightarrow> int option" where
  \<comment> \<open>StringRef::getAsInteger(10, long long): None stands for its failure result (not a decimal number,
      or out of the range of long long).\<close>
  "getAsInteger Text =
     (let (neg, ds) = (case Text of c # cs \<Rightarrow> if c = CHR ''-'' then (True, cs) else (False, Text)
                                  | [] \<Rightarrow> (False, []));
          v = int (foldl (\<lambda>a c. 10 * a + digitVal c) 0 ds)
      in if ds = [] \<or> \<not> list_all isDigit ds then None
         else if neg then (if v \<le> 2 ^ 63 then Some (- v) else None)
         else (if v < 2 ^ 63 then Some v else None))"

definition parseAttribute :: "DeclAttributes \<Rightarrow> pstate \<Rightarrow> bool \<times> DeclAttributes \<times> pstate" where
  "parseAttribute Attributes st =
     (case (if TokIs st tok_identifier then isInfixAttr (Tok st) else None) of
        Some Assoc \<Rightarrow>
          (let st1 = (if isInfix Attributes
                      then diagnose (TokLoc (Tok st)) duplicate_attribute [ArgText (TokText (Tok st))] st
                      else st);
               st2 = consumeToken st1;
               Attributes1 = Attributes\<lparr>Infix := Some (100, Assoc)\<rparr>
           in case consumeIf tok_equal st2 of
                (True, st3) \<Rightarrow>
                  (let PrecLoc = TokLoc (Tok st3); Text = TokText (Tok st3)
                   in case parseToken tok_numeric_constant expected_precedence_value st3 of
                        (False, st4) \<Rightarrow>
                          (case getAsInteger Text of
                             None \<Rightarrow> (False, Attributes1, diagnose PrecLoc invalid_precedence [ArgText Text] st4)
                           | Some Value \<Rightarrow>
                               if Value > 255 \<or> Value < 0
                               then (False, Attributes1, diagnose PrecLoc invalid_precedence [ArgText Text] st4)
                               else (False, Attributes1\<lparr>Infix := Some (nat Value, Assoc)\<rparr>, st4))
                      | (True, st4) \<Rightarrow> (False, Attributes1, skipUntil tok_r_square tok_comma st4))
              | (False, st3) \<Rightarrow> (False, Attributes1, st3))
      | None \<Rightarrow>
          (let st1 = (if TokIs st tok_identifier
                      then diagnose (TokLoc (Tok st)) unknown_attribute [ArgText (TokText (Tok st))] st
                      else diagnose (TokLoc (Tok st)) expected_attribute_name [] st)
           in (True, Attributes, skipUntil tok_r_square tok_unknown st1)))"


lemma length_skipToks: "length (skipToks T1 T2 ts) \<le> length ts"
  by (induction ts) auto

lemma skipToks_le: "length ts \<le> n \<Longrightarrow> length (skipToks T1 T2 ts) \<le> n"
  using length_skipToks[of T1 T2 ts] by simp

lemma parseAttribute_length:
  "length (Toks (snd (snd (parseAttribute A st)))) \<le> length (Toks st)"
  unfolding parseAttribute_def Let_def consumeIf_def parseToken_def consumeToken_def
    diagnose_def skipUntil_def
  by (simp add: skipToks_le split: option.split)

lemma TokIs_nonempty: "TokIs st K \<Longrightarrow> K \<noteq> tok_eof \<Longrightarrow> Toks st \<noteq> []"
  by (auto simp: TokIs_def Tok_def eofToken_def)

function parseAttributeRest ::
  "bool \<Rightarrow> DeclAttributes \<Rightarrow> pstate \<Rightarrow> bool \<times> DeclAttributes \<times> pstate" where
  "parseAttributeRest HadError Attributes st =
     (if TokIs st tok_comma then
        (case parseAttribute Attributes (consumeToken st) of
           (E, Attributes1, st1) \<Rightarrow> parseAttributeRest (HadError \<or> E) Attributes1 st1)
      else (HadError, Attributes, st))"
  by pat_completeness auto
termination
proof (relation "measure (\<lambda>(H, A, st). length (Toks st))", goal_cases)
  case 1
  show ?case by simp
next
  case (2 HadError Attributes st E y Attributes1 st1)
  have "st1 = snd (snd (parseAttribute Attributes (consumeToken st)))"
    using 2(2,3) by (metis snd_conv)
  then have "length (Toks st1) \<le> length (Toks (consumeToken st))"
    using parseAttribute_length by simp
  moreover have "Toks st \<noteq> []"
    using 2(1) by (simp add: TokIs_nonempty)
  ultimately show ?case
    by (cases "Toks st") (auto simp: consumeToken_def)
qed

definition parseAttributeListPresent :: "DeclAttributes \<Rightarrow> pstate \<Rightarrow> DeclAttributes \<times> pstate" where
  "parseAttributeListPresent Attributes st =
     (let Attributes1 = Attributes\<lparr>LSquareLoc := TokLoc (Tok st)\<rparr>;
          st1 = consumeToken st
      in if TokIs st1 tok_r_square
         then (Attributes1\<lparr>RSquareLoc := TokLoc (Tok st1)\<rparr>, consumeToken st1)
         else
           (case parseAttribute Attributes1 st1 of
              (E, Attributes2, st2) \<Rightarrow>
                (case parseAttributeRest E Attributes2 st2 of
                   (HadError, Attributes3, st3) \<Rightarrow>
                     (let Attributes4 = Attributes3\<lparr>RSquareLoc := TokLoc (Tok st3)\<rparr>
                      in case consumeIf tok_r_square st3 of
                           (True, st4) \<Rightarrow> (Attributes4, st4)
                         | (False, st4) \<Rightarrow>
                             (let st5 = (if \<not> HadError
                                         then snd (parseMatchingToken tok_r_square expected_in_attribute_list
                                                     (LSquareLoc Attributes4) opening_bracket st4)
                                         else st4);
                                  st6 = skipUntil tok_r_square tok_unknown st5
                              in (Attributes4, snd (consumeIf tok_r_square st6)))))))"

definition parseAttributeList :: "DeclAttributes \<Rightarrow> pstate \<Rightarrow> DeclAttributes \<times> pstate" where
  \<comment> \<open>Modelled from the spec: the optional attribute list of the grammar
      (\<^verbatim>\<open>attribute-list?\<close>), present exactly when the current token is \<^verbatim>\<open>[\<close>.\<close>
  "parseAttributeList Attributes st =
     (if TokIs st tok_l_square then parseAttributeListPresent Attributes st else (Attributes, st))"

section \<open>The AST arena and the scope registry\<close>

definition newDecl :: "Decl \<Rightarrow> pstate \<Rightarrow> nat \<times> pstate" where
  \<comment> \<open>\<^verbatim>\<open>new (Context) ...Decl(...)\<close>: the arena hands out the next free slot; nothing is ever freed.\<close>
  "newDecl D st =
     (NextDecl st, st\<lparr>DeclStore := (DeclStore st)(NextDecl st := D), NextDecl := Suc (NextDecl st)\<rparr>)"

definition setDeclContext :: "nat \<Rightarrow> DeclContext \<Rightarrow> pstate \<Rightarrow> pstate" where
  "setDeclContext D DC st = st\<lparr>DeclStore := (DeclStore st)(D := (DeclStore st D)\<lparr>Context := DC\<rparr>)\<rparr>"

definition setType :: "nat \<Rightarrow> Type \<Rightarrow> pstate \<Rightarrow> pstate" where
  "setType D T st = st\<lparr>DeclStore := (DeclStore st)(D := (DeclStore st D)\<lparr>Ty := Some T\<rparr>)\<rparr>"

definition setUnderlyingType :: "nat \<Rightarrow> Type \<Rightarrow> pstate \<Rightarrow> pstate" where
  "setUnderlyingType D T st =
     st\<lparr>DeclStore := (DeclStore st)(D := (DeclStore st D)\<lparr>UnderlyingTy := Some T\<rparr>)\<rparr>"

definition setTypeAliasLoc :: "nat \<Rightarrow> SourceLoc \<Rightarrow> pstate \<Rightarrow> pstate" where
  "setTypeAliasLoc D L st = st\<lparr>DeclStore := (DeclStore st)(D := (DeclStore st D)\<lparr>LocStart := L\<rparr>)\<rparr>"

definition hasUnderlyingType :: "pstate \<Rightarrow> nat \<Rightarrow> bool" where
  "hasUnderlyingType st D = (UnderlyingTy (DeclStore st D) \<noteq> None)"

definition getAliasType :: "nat \<Rightarrow> Type" where
  "getAliasType TAD = NameAliasType TAD"

definition newTypeAliasDecl :: "SourceLoc \<Rightarrow> Identifier \<Rightarrow> Type option \<Rightarrow> pstate \<Rightarrow> nat \<times> pstate" where
  "newTypeAliasDecl L N T st =
     newDecl \<lparr>Kind = TypeAliasDecl, LocStart = L, Name = N, Ty = None,
              Context = CurDeclContext st, UnderlyingTy = T\<rparr> st"

definition addToScope :: "nat \<Rightarrow> pstate \<Rightarrow> pstate" where
  \<comment> \<open>Modelled from the spec: the registry's \<^verbatim>\<open>insert(name, declaration)\<close> into the current scope.\<close>
  "addToScope D st =
     st\<lparr>ScopeInfo := (ScopeInfo st)\<lparr>Bindings := (Name (DeclStore st D), D) # Bindings (ScopeInfo st)\<rparr>\<rparr>"

definition lookupTypeName :: "Identifier \<Rightarrow> pstate \<Rightarrow> nat option" where
  \<comment> \<open>Modelled from the spec: the innermost type alias the registry binds to a name.\<close>
  "lookupTypeName N st =
     map_option snd
       (find (\<lambda>(n, d). n = N \<and> Kind (DeclStore st d) = TypeAliasDecl) (Bindings (ScopeInfo st)))"

definition recordUnresolvedAlias :: "nat \<Rightarrow> pstate \<Rightarrow> pstate" where
  \<comment> \<open>Modelled from the spec: \<^verbatim>\<open>recordUnresolvedAlias(alias)\<close> appends to the file-wide worklist.\<close>
  "recordUnresolvedAlias TAD st =
     st\<lparr>ScopeInfo := (ScopeInfo st)\<lparr>UnresolvedTypeList := UnresolvedTypeList (ScopeInfo st) @ [TAD]\<rparr>\<rparr>"

definition lookupOrInsertTypeName :: "Identifier \<Rightarrow> SourceLoc \<Rightarrow> pstate \<Rightarrow> Type \<times> pstate" where
  \<comment> \<open>Modelled from the spec: \<^verbatim>\<open>lookupOrInsertTypeNameStub(name, location)\<close>; a name used before
      its definition is registered as a stub alias and recorded in the unresolved worklist.\<close>
  "lookupOrInsertTypeName N L st =
     (case lookupTypeName N st of
        Some TAD \<Rightarrow> (getAliasType TAD, st)
      | None \<Rightarrow>
          (case newTypeAliasDecl L N None st of
             (TAD, st1) \<Rightarrow> (getAliasType TAD, recordUnresolvedAlias TAD (addToScope TAD st1))))"

definition addTypeAliasToScope ::
  "SourceLoc \<Rightarrow> Identifier \<Rightarrow> Type option \<Rightarrow> pstate \<Rightarrow> nat \<times> pstate" where
  \<comment> \<open>Modelled from the spec: two-phase completion of type aliases. A stub left by a forward reference
      is completed in place (its location updated, its underlying type set when one is given);
      otherwise a new alias declaration is created and bound to the name.\<close>
  "addTypeAliasToScope L N T st =
     (case (case lookupTypeName N st of
              Some TAD \<Rightarrow> if hasUnderlyingType st TAD then None else Some TAD
            | None \<Rightarrow> None) of
        Some TAD \<Rightarrow>
          (let st1 = setTypeAliasLoc TAD L st
           in (TAD, case T of Some U \<Rightarrow> setUnderlyingType TAD U st1 | None \<Rightarrow> st1))
      | None \<Rightarrow>
          (case newTypeAliasDecl L N T st of (TAD, st1) \<Rightarrow> (TAD, addToScope TAD st1)))"

definition restoreScope :: "(Identifier \<times> nat) list \<Rightarrow> pstate \<Rightarrow> pstate" where
  \<comment> \<open>Modelled from the spec: leaving a lexical scope makes every entry inserted within it invisible;
      the unresolved worklist persists.\<close>
  "restoreScope Saved st = st\<lparr>ScopeInfo := (ScopeInfo st)\<lparr>Bindings := Saved\<rparr>\<rparr>"

section \<open>The collaborators consumed as black boxes\<close>

text \<open>
  The type parser, the value-specifier and statement parsers, the function-expression
  action, the recovery skip to a declaration boundary and the projection of a type along
  an access path are defined outside \<^verbatim>\<open>ParseDecl.cpp\<close>. The declaration parser is
  parameterised over them; for a parser that returns true on error the result
  \<open>None\<close> stands for true.
\<close>

datatype ExprStmtOrDecl = ItemExpr nat | ItemStmt nat | ItemDecl nat

datatype Fault = OutOfFuel | EmptyBack | IndexOutOfBounds | NullDeref | AssertFailed

record Externals =
  parseType :: "diag_id \<Rightarrow> pstate \<Rightarrow> Type option \<times> pstate"
  parseTypeIdentifier :: "pstate \<Rightarrow> Type option \<times> pstate"
  parseTypeTupleBody :: "SourceLoc \<Rightarrow> pstate \<Rightarrow> Type option \<times> pstate"
  parseValueSpecifier :: "bool \<Rightarrow> pstate \<Rightarrow> (Type option \<times> nat option) option \<times> pstate"
  parseStmtBrace :: "diag_id \<Rightarrow> pstate \<Rightarrow> nat option \<times> pstate"
  actOnFuncExprStart :: "SourceLoc \<Rightarrow> Type \<Rightarrow> pstate \<Rightarrow> nat \<times> pstate"
  skipUntilDeclRBrace :: "pstate \<Rightarrow> pstate"
  getTypeForPath :: "Type option \<Rightarrow> nat list \<Rightarrow> Type option"
  parseBraceItemList :: "bool \<Rightarrow> pstate \<Rightarrow> Fault + (ExprStmtOrDecl list \<times> pstate)"

section \<open>Simple declarations: import, typealias, var-name patterns\<close>

function parseImportPath ::
  "(Identifier \<times> SourceLoc) list \<Rightarrow> pstate \<Rightarrow> (Identifier \<times> SourceLoc) list option \<times> pstate" where
  "parseImportPath ImportPath st =
     (case consumeIf tok_period st of
        (True, st1) \<Rightarrow>
          (case parseIdentifier expected_identifier_in_decl [ArgText ''import''] st1 of
             (None, st2) \<Rightarrow> (None, st2)
           | (Some Ident, st2) \<Rightarrow> parseImportPath (ImportPath @ [(Ident, TokLoc (Tok st1))]) st2)
      | (False, st1) \<Rightarrow> (Some ImportPath, st1))"
  by pat_completeness auto
termination
  by (relation "measure (\<lambda>(P, st). length (Toks st))")
     (auto simp: consumeIf_def parseIdentifier_def consumeToken_def TokIs_def Tok_def eofToken_def
           split: if_splits list.splits)

definition parseDeclImport :: "pstate \<Rightarrow> DeclPtr \<times> pstate" where
  "parseDeclImport st =
     (let ImportLoc = TokLoc (Tok st); st1 = consumeToken st
      in case parseAttributeList noAttributes st1 of
           (Attributes, st2) \<Rightarrow>
             (case parseIdentifier decl_expected_module_name [] st2 of
                (None, st3) \<Rightarrow> (None, st3)
              | (Some Ident, st3) \<Rightarrow>
                  (case parseImportPath [(Ident, TokLoc (Tok st2))] st3 of
                     (None, st4) \<Rightarrow> (None, st4)
                   | (Some ImportPath, st4) \<Rightarrow>
                       (let st5 = (if \<not> attrsEmpty Attributes
                                   then diagnose (LSquareLoc Attributes) import_attributes [] st4
                                   else st4)
                        in case newDecl \<lparr>Kind = ImportDecl ImportPath, LocStart = ImportLoc, Name = [],
                                          Ty = None, Context = CurDeclContext st5,
                                          UnderlyingTy = None\<rparr> st5 of
                             (D, st6) \<Rightarrow> (Some D, st6)))))"

definition parseDeclTypeAlias :: "Externals \<Rightarrow> pstate \<Rightarrow> DeclPtr \<times> pstate" where
  "parseDeclTypeAlias X st =
     (let TypeAliasLoc = TokLoc (Tok st); st1 = consumeToken st
      in case parseIdentifier expected_identifier_in_decl [ArgText ''typealias''] st1 of
           (None, st2) \<Rightarrow> (None, st2)
         | (Some Ident, st2) \<Rightarrow>
             (case parseToken tok_colon expected_colon_in_typealias st2 of
                (True, st3) \<Rightarrow> (None, st3)
              | (False, st3) \<Rightarrow>
                  (case parseType X expected_type_in_typealias st3 of
                     (None, st4) \<Rightarrow> (None, st4)
                   | (Some T, st4) \<Rightarrow>
                       (case addTypeAliasToScope TypeAliasLoc Ident (Some T) st4 of
                          (TAD, st5) \<Rightarrow> (Some TAD, st5)))))"


function parseVarName :: "pstate \<Rightarrow> DeclVarName option \<times> pstate"
  and parseVarNameElts :: "pstate \<Rightarrow> DeclVarName list option \<times> pstate" where
  "parseVarName st =
     (if TokIs st tok_identifier \<or> TokIs st tok_oper then
        (Some (SimpleName (TokText (Tok st)) (TokLoc (Tok st))), consumeToken st)
      else if \<not> TokIs st tok_l_paren \<and> \<not> TokIs st tok_l_paren_space then
        (None, diagnose (TokLoc (Tok st)) expected_lparen_var_name [] st)
      else
        (case (if \<not> TokIs (consumeToken st) tok_r_paren then parseVarNameElts (consumeToken st)
               else (Some [], consumeToken st)) of
           (None, st2) \<Rightarrow> (None, st2)
         | (Some ChildNames, st2) \<Rightarrow>
             (Some (NestedName (TokLoc (Tok st)) ChildNames
                      (if TokIs st2 tok_r_paren then TokLoc (Tok st2) else 0)),
              snd (parseMatchingToken tok_r_paren expected_rparen_var_name
                     (TokLoc (Tok st)) opening_paren st2))))"
| "parseVarNameElts st =
     (case parseVarName st of
        (None, st1) \<Rightarrow> (None, st1)
      | (Some Elt, st1) \<Rightarrow>
          (if TokIs st1 tok_comma then
             (case parseVarNameElts (consumeToken st1) of
                (None, st3) \<Rightarrow> (None, st3)
              | (Some ChildNames, st3) \<Rightarrow> (Some (Elt # ChildNames), st3))
           else (Some [Elt], st1)))"
  by pat_completeness auto

lemma parseVarName_length:
  "parseVarName_parseVarNameElts_dom (Inl st) \<Longrightarrow>
     length (Toks (snd (parseVarName st))) \<le> length (Toks st)"
  "parseVarName_parseVarNameElts_dom (Inr st') \<Longrightarrow>
     length (Toks (snd (parseVarNameElts st'))) \<le> length (Toks st')"
proof (induction st and st' rule: parseVarName_parseVarNameElts.pinduct)
  case (1 st)
  show ?case
    using 1
    by (auto simp: parseVarName.psimps parseMatchingToken_def parseToken_def consumeToken_def
          diagnose_def split: prod.splits option.splits if_splits)
next
  case (2 st)
  show ?case
    using 2
    by (auto simp: parseVarNameElts.psimps consumeToken_def split: prod.splits option.splits if_splits)
qed

termination parseVarName
proof (relation "measure (\<lambda>x. case x of Inl st \<Rightarrow> 2 * length (Toks st)
                                         | Inr st \<Rightarrow> 2 * length (Toks st) + 1)", goal_cases)
  case 1
  show ?case by simp
next
  case (2 st)
  then have "Toks st \<noteq> []"
    by (auto simp: TokIs_nonempty)
  then show ?case
    by (cases "Toks st") (auto simp: consumeToken_def)
next
  case (3 st)
  show ?case by simp
next
  case (4 st x y x2)
  have "y = snd (parseVarName st)"
    using 4(1) by (metis snd_conv)
  then have "length (Toks y) \<le> length (Toks st)"
    using parseVarName_length(1)[OF 4(4)] by simp
  moreover have "Toks y \<noteq> []"
    using 4(3) by (simp add: TokIs_nonempty)
  ultimately show ?case
    by (cases "Toks y") (auto simp: consumeToken_def)
qed

fun actOnVarDeclName ::
  "Externals \<Rightarrow> DeclVarName \<Rightarrow> nat list \<Rightarrow> nat \<Rightarrow> DeclPtr list \<Rightarrow> pstate \<Rightarrow> DeclPtr list \<times> pstate"
  and actOnVarDeclNameElements ::
  "Externals \<Rightarrow> DeclVarName list \<Rightarrow> nat list \<Rightarrow> nat \<Rightarrow> nat \<Rightarrow> DeclPtr list \<Rightarrow> pstate
     \<Rightarrow> DeclPtr list \<times> pstate" where
  "actOnVarDeclName X (SimpleName Ident IdLoc) AccessPath VD Decls st =
     (case getTypeForPath X (Ty (DeclStore st VD)) AccessPath of
        None \<Rightarrow>
          (Decls, diagnose IdLoc invalid_index_in_var_name_path
                    ((ArgText Ident) # (case Ty (DeclStore st VD) of Some T \<Rightarrow> [ArgType T] | None \<Rightarrow> []))
                    st)
      | Some T \<Rightarrow>
          (case newDecl \<lparr>Kind = ElementRefDecl VD AccessPath, LocStart = IdLoc, Name = Ident,
                          Ty = Some T, Context = CurDeclContext st, UnderlyingTy = None\<rparr> st of
             (ERD, st1) \<Rightarrow> (Decls @ [Some ERD], addToScope ERD st1)))"
| "actOnVarDeclName X (NestedName LPLoc Elts RPLoc) AccessPath VD Decls st =
     actOnVarDeclNameElements X Elts AccessPath 0 VD Decls st"
| "actOnVarDeclNameElements X [] AccessPath Index VD Decls st = (Decls, st)"
| "actOnVarDeclNameElements X (Element # Elts) AccessPath Index VD Decls st =
     (case actOnVarDeclName X Element (AccessPath @ [Index]) VD Decls st of
        (Decls1, st1) \<Rightarrow> actOnVarDeclNameElements X Elts AccessPath (Suc Index) VD Decls1 st1)"

definition parseDeclVar :: "Externals \<Rightarrow> DeclPtr list \<Rightarrow> pstate \<Rightarrow> bool \<times> DeclPtr list \<times> pstate" where
  "parseDeclVar X Decls st =
     (let VarLoc = TokLoc (Tok st); st1 = consumeToken st
      in case parseAttributeList noAttributes st1 of
           (Attributes, st2) \<Rightarrow>
             (case parseVarName st2 of
                (None, st3) \<Rightarrow> (True, Decls, st3)
              | (Some VarName, st3) \<Rightarrow>
                  (case parseValueSpecifier X False st3 of
                     (None, st4) \<Rightarrow> (True, Decls, st4)
                   | (Some (Ty0, Init), st4) \<Rightarrow>
                       (let T = (case Ty0 of None \<Rightarrow> DependentType | Some T0 \<Rightarrow> T0)
                        in case VarName of
                             SimpleName Ident IdLoc \<Rightarrow>
                               (case newDecl \<lparr>Kind = VarDecl None Init Attributes, LocStart = VarLoc,
                                               Name = Ident, Ty = Some T,
                                               Context = CurDeclContext st4, UnderlyingTy = None\<rparr> st4 of
                                  (VD, st5) \<Rightarrow> (False, Decls @ [Some VD], addToScope VD st5))
                           | NestedName LPLoc Elts RPLoc \<Rightarrow>
                               (case newDecl \<lparr>Kind = VarDecl (Some VarName) Init Attributes,
                                               LocStart = VarLoc, Name = [], Ty = Some T,
                                               Context = CurDeclContext st4, UnderlyingTy = None\<rparr> st4 of
                                  (VD, st5) \<Rightarrow>
                                    (case actOnVarDeclName X VarName [] VD (Decls @ [Some VD]) st5 of
                                       (Decls1, st6) \<Rightarrow> (False, Decls1, st6)))))))"

definition isVarDecl :: "Decl \<Rightarrow> bool" where
  "isVarDecl d = (case Kind d of VarDecl N I A \<Rightarrow> True | _ \<Rightarrow> False)"

definition parseDeclVarSimple :: "Externals \<Rightarrow> pstate \<Rightarrow> DeclPtr \<times> pstate" where
  "parseDeclVarSimple X st =
     (let CurLoc = TokLoc (Tok st)
      in case parseDeclVar X [] st of
           (True, Decls, st1) \<Rightarrow> (None, st1)
         | (False, Decls, st1) \<Rightarrow>
             (case Decls of
                [Some VD] \<Rightarrow>
                  if isVarDecl (DeclStore st1 VD) then (Some VD, st1)
                  else (None, diagnose CurLoc non_simple_var [] st1)
              | _ \<Rightarrow> (None, diagnose CurLoc non_simple_var [] st1)))"

definition isFunctionType :: "Type \<Rightarrow> bool" where
  "isFunctionType T = (case T of FunctionType A R \<Rightarrow> True | _ \<Rightarrow> False)"

definition setBody :: "nat \<Rightarrow> nat \<Rightarrow> pstate \<Rightarrow> pstate" where
  "setBody FE Body st = st\<lparr>FuncExprBody := (FuncExprBody st)(FE := Some Body)\<rparr>"

definition parseDeclFunc :: "Externals \<Rightarrow> Type option \<Rightarrow> pstate \<Rightarrow> DeclPtr \<times> pstate" where
  "parseDeclFunc X ReceiverTy0 st =
     (let FuncLoc = TokLoc (Tok st); st1 = consumeToken st
      in case parseAttributeList noAttributes st1 of
           (Attributes, st2) \<Rightarrow>
             (case parseIdentifier expected_identifier_in_decl [ArgText ''func''] st2 of
                (None, st3) \<Rightarrow> (None, st3)
              | (Some Name0, st3) \<Rightarrow>
                  (case (if ReceiverTy0 = None then
                           (case consumeIf tok_coloncolon st3 of
                              (True, st4) \<Rightarrow>
                                (case lookupOrInsertTypeName Name0 (TokLoc (Tok st2)) st4 of
                                   (RT, st5) \<Rightarrow>
                                     (case parseIdentifier expected_identifier_in_decl [ArgText ''func''] st5 of
                                        (None, st6) \<Rightarrow> (None, st6)
                                      | (Some Name1, st6) \<Rightarrow> (Some (Name1, Some RT), st6)))
                            | (False, st4) \<Rightarrow> (Some (Name0, ReceiverTy0), st4))
                         else (Some (Name0, ReceiverTy0), st3)) of
                     (None, st7) \<Rightarrow> (None, st7)
                   | (Some (FuncName, ReceiverTy), st7) \<Rightarrow>
                       if \<not> TokIs st7 tok_l_paren \<and> \<not> TokIs st7 tok_l_paren_space
                       then (None, diagnose (TokLoc (Tok st7)) func_decl_without_paren [] st7)
                       else
                         (case parseType X expected_type st7 of
                            (None, st8) \<Rightarrow> (None, st8)
                          | (Some FuncTy0, st8) \<Rightarrow>
                              (let FuncTy1 = (if \<not> isFunctionType FuncTy0
                                              then FunctionType FuncTy0 (TupleType [])
                                              else FuncTy0);
                                   FuncTy = (case ReceiverTy of
                                               Some R \<Rightarrow> FunctionType (TupleType [(R, ''this'')]) FuncTy1
                                             | None \<Rightarrow> FuncTy1);
                                   FnBodyScope = Bindings (ScopeInfo st8)
                               in case actOnFuncExprStart X FuncLoc FuncTy st8 of
                                    (FE0, st9) \<Rightarrow>
                                      (let SavedContext = CurDeclContext st9;
                                           st10 = st9\<lparr>CurDeclContext := FuncExprDC FE0\<rparr>
                                       in case (if TokIs st10 tok_l_brace then
                                                  (case parseStmtBrace X invalid_diagnostic st10 of
                                                     (Some Body, st11) \<Rightarrow> (Some FE0, setBody FE0 Body st11)
                                                   | (None, st11) \<Rightarrow> (None, st11))
                                                else (None, st10)) of
                                            (FE, st12) \<Rightarrow>
                                              (let st13 = restoreScope FnBodyScope
                                                            (st12\<lparr>CurDeclContext := SavedContext\<rparr>)
                                               in case newDecl \<lparr>Kind = FuncDecl FE Attributes,
                                                                 LocStart = FuncLoc, Name = FuncName,
                                                                 Ty = Some FuncTy,
                                                                 Context = CurDeclContext st13,
                                                                 UnderlyingTy = None\<rparr> st13 of
                                                    (FD, st14) \<Rightarrow> (Some FD, addToScope FD st14))))))))"


section \<open>Tagged unions, structs, extensions and protocols\<close>

record OneOfElementInfo =
  EltName :: string
  EltNameLoc :: SourceLoc
  EltType :: "Type option"

fun oneOfElementDecls ::
  "Type \<Rightarrow> bool \<Rightarrow> OneOfElementInfo list \<Rightarrow> Identifier set \<Rightarrow> nat list \<Rightarrow> pstate
     \<Rightarrow> nat list \<times> pstate" where
  "oneOfElementDecls TmpTy Pretty [] SeenSoFar EltDecls st = (EltDecls, st)"
| "oneOfElementDecls TmpTy Pretty (Elt # Elts) SeenSoFar EltDecls st =
     (if EltName Elt \<in> SeenSoFar then
        (let st1 = diagnose (EltNameLoc Elt) duplicate_oneof_element [ArgText (EltName Elt)] st;
             st2 = (case find (\<lambda>I. Name (DeclStore st1 I) = EltName Elt) EltDecls of
                      Some I \<Rightarrow> diagnose (LocStart (DeclStore st1 I)) previous_definition
                                  [ArgText (EltName Elt)] st1
                    | None \<Rightarrow> st1)
         in oneOfElementDecls TmpTy Pretty Elts SeenSoFar EltDecls st2)
      else
        (let EltTy = (case EltType Elt of
                        Some ArgTy \<Rightarrow> if Pretty then FunctionType ArgTy TmpTy else TmpTy
                      | None \<Rightarrow> TmpTy)
         in case newDecl \<lparr>Kind = OneOfElementDecl (EltType Elt), LocStart = EltNameLoc Elt,
                           Name = EltName Elt, Ty = Some EltTy, Context = CurDeclContext st,
                           UnderlyingTy = None\<rparr> st of
              (D, st1) \<Rightarrow>
                oneOfElementDecls TmpTy Pretty Elts (insert (EltName Elt) SeenSoFar) (EltDecls @ [D]) st1))"

definition newOneOfType :: "SourceLoc \<Rightarrow> nat list \<Rightarrow> DeclContext \<Rightarrow> pstate \<Rightarrow> nat \<times> pstate" where
  \<comment> \<open>\<^verbatim>\<open>OneOfType::getNew\<close>: every call makes a type with a fresh identity.\<close>
  "newOneOfType L EltDecls Parent st =
     (NextOneOf st,
      st\<lparr>OneOfStore := (OneOfStore st)
             (NextOneOf st := \<lparr>OneOfLoc = L, Elements = EltDecls, OneOfParent = Parent\<rparr>),
         NextOneOf := Suc (NextOneOf st)\<rparr>)"

definition newProtocolType :: "SourceLoc \<Rightarrow> nat list \<Rightarrow> DeclContext \<Rightarrow> pstate \<Rightarrow> nat \<times> pstate" where
  \<comment> \<open>\<^verbatim>\<open>ProtocolType::getNew\<close>: every call makes a type with a fresh identity.\<close>
  "newProtocolType L Elts Parent st =
     (NextProtocol st,
      st\<lparr>ProtocolStore := (ProtocolStore st)
             (NextProtocol st := \<lparr>ProtocolLoc = L, ProtoElements = Elts, ProtoParent = Parent\<rparr>),
         NextProtocol := Suc (NextProtocol st)\<rparr>)"

fun setMemberDeclContexts :: "DeclPtr list \<Rightarrow> DeclContext \<Rightarrow> pstate \<Rightarrow> Fault + pstate" where
  "setMemberDeclContexts [] DC st = Inr st"
| "setMemberDeclContexts (None # Ds) DC st = Inl NullDeref"
| "setMemberDeclContexts (Some D # Ds) DC st = setMemberDeclContexts Ds DC (setDeclContext D DC st)"

definition getArgumentType :: "pstate \<Rightarrow> nat \<Rightarrow> Type option" where
  "getArgumentType st D = (case Kind (DeclStore st D) of OneOfElementDecl A \<Rightarrow> A | _ \<Rightarrow> None)"

definition actOnOneOfType ::
  "SourceLoc \<Rightarrow> DeclAttributes \<Rightarrow> OneOfElementInfo list \<Rightarrow> DeclPtr list \<Rightarrow> nat option \<Rightarrow> pstate
     \<Rightarrow> Fault + (nat \<times> pstate)" where
  "actOnOneOfType L Attrs Elts MemberDecls PrettyTypeName st =
     (let st1 = (if \<not> attrsEmpty Attrs then diagnose (LSquareLoc Attrs) oneof_attributes [] st else st);
          TmpTy = (case PrettyTypeName of Some TAD \<Rightarrow> getAliasType TAD | None \<Rightarrow> TupleType [])
      in case oneOfElementDecls TmpTy (PrettyTypeName \<noteq> None) Elts {} [] st1 of
           (EltDecls, st2) \<Rightarrow>
             (case newOneOfType L EltDecls (CurDeclContext st2) st2 of
                (Result, st3) \<Rightarrow>
                  (case setMemberDeclContexts MemberDecls (OneOfTypeDC Result)
                          (fold (\<lambda>D. setDeclContext D (OneOfTypeDC Result)) EltDecls st3) of
                     Inl f \<Rightarrow> Inl f
                   | Inr st5 \<Rightarrow>
                       Inr (Result,
                            case PrettyTypeName of
                              Some TAD \<Rightarrow> setUnderlyingType TAD (OneOfType Result) st5
                            | None \<Rightarrow>
                                fold (\<lambda>Elt s. setType Elt
                                        (case getArgumentType s Elt of
                                           Some ArgTy \<Rightarrow> FunctionType ArgTy (OneOfType Result)
                                         | None \<Rightarrow> OneOfType Result) s)
                                  EltDecls st5))))"

datatype PDFlag = PD_AllowImport | PD_DisallowVar | PD_DisallowOperators

type_synonym ParseDeclFn =
  "DeclPtr list \<Rightarrow> PDFlag set \<Rightarrow> pstate \<Rightarrow> Fault + (bool \<times> DeclPtr list \<times> pstate)"

text \<open>
  The loops of the parser whose progress depends on the black-box collaborators, and the
  recursion of \<open>parseDecl\<close> through the bodies of extensions, unions and structs, are
  bounded by fuel: running out is the fault \<open>OutOfFuel\<close>. The body loop
  \<^verbatim>\<open>while (Tok.isNot(tok::r_brace) && Tok.isNot(tok::eof)) if (parseDecl(...)) skipUntilDeclRBrace();\<close>
  occurs three times in the source; \<open>pd\<close> is the recursive \<open>parseDecl\<close>.
\<close>

primrec parseMemberDecls ::
  "Externals \<Rightarrow> ParseDeclFn \<Rightarrow> PDFlag set \<Rightarrow> nat \<Rightarrow> DeclPtr list \<Rightarrow> pstate
     \<Rightarrow> Fault + (DeclPtr list \<times> pstate)" where
  "parseMemberDecls X pd Flags 0 MemberDecls st =
     (if \<not> TokIs st tok_r_brace \<and> \<not> TokIs st tok_eof then Inl OutOfFuel
      else Inr (MemberDecls, st))"
| "parseMemberDecls X pd Flags (Suc n) MemberDecls st =
     (if \<not> TokIs st tok_r_brace \<and> \<not> TokIs st tok_eof then
        (case pd MemberDecls Flags st of
           Inl f \<Rightarrow> Inl f
         | Inr (HadError, MemberDecls1, st1) \<Rightarrow>
             parseMemberDecls X pd Flags n MemberDecls1
               (if HadError then skipUntilDeclRBrace X st1 else st1))
      else Inr (MemberDecls, st))"

primrec parseOneOfElements ::
  "Externals \<Rightarrow> nat \<Rightarrow> OneOfElementInfo list \<Rightarrow> pstate
     \<Rightarrow> Fault + (OneOfElementInfo list option \<times> pstate)" where
  "parseOneOfElements X 0 ElementInfos st =
     (if TokIs st tok_identifier then Inl OutOfFuel else Inr (Some ElementInfos, st))"
| "parseOneOfElements X (Suc n) ElementInfos st =
     (if TokIs st tok_identifier then
        (case (case consumeIf tok_colon (consumeToken st) of
                 (True, st2) \<Rightarrow>
                   (case parseType X expected_type_oneof_element st2 of
                      (None, st3) \<Rightarrow> (None, st3)
                    | (Some T, st3) \<Rightarrow> (Some (Some T), st3))
               | (False, st2) \<Rightarrow> (Some None, st2)) of
           (None, st3) \<Rightarrow> Inr (None, skipUntil tok_r_brace tok_unknown st3)
         | (Some ET, st3) \<Rightarrow>
             (let ElementInfo = \<lparr>EltName = TokText (Tok st), EltNameLoc = TokLoc (Tok st), EltType = ET\<rparr>
              in case consumeIf tok_comma st3 of
                   (True, st4) \<Rightarrow> parseOneOfElements X n (ElementInfos @ [ElementInfo]) st4
                 | (False, st4) \<Rightarrow> Inr (Some (ElementInfos @ [ElementInfo]), st4)))
      else Inr (Some ElementInfos, st))"

definition parseDeclOneOfBody ::
  "Externals \<Rightarrow> nat \<Rightarrow> ParseDeclFn \<Rightarrow> SourceLoc \<Rightarrow> DeclAttributes \<Rightarrow> nat option \<Rightarrow> pstate
     \<Rightarrow> Fault + (Type option \<times> pstate)" where
  "parseDeclOneOfBody X n pd L Attrs TypeName st =
     (case parseToken tok_l_brace expected_lbrace_oneof_type st of
        (True, st1) \<Rightarrow> Inr (None, st1)
      | (False, st1) \<Rightarrow>
          (case parseOneOfElements X n [] st1 of
             Inl f \<Rightarrow> Inl f
           | Inr (None, st2) \<Rightarrow> Inr (None, st2)
           | Inr (Some ElementInfos, st2) \<Rightarrow>
               (case parseMemberDecls X pd {PD_DisallowVar, PD_DisallowOperators} n [] st2 of
                  Inl f \<Rightarrow> Inl f
                | Inr (MemberDecls, st3) \<Rightarrow>
                    (case actOnOneOfType L Attrs ElementInfos MemberDecls TypeName
                            (snd (parseMatchingToken tok_r_brace expected_rbrace_oneof_type
                                    (TokLoc (Tok st)) opening_brace st3)) of
                       Inl f \<Rightarrow> Inl f
                     | Inr (Result, st5) \<Rightarrow> Inr (Some (OneOfType Result), st5)))))"

definition parseDeclOneOf :: "Externals \<Rightarrow> nat \<Rightarrow> ParseDeclFn \<Rightarrow> pstate \<Rightarrow> Fault + (DeclPtr \<times> pstate)" where
  "parseDeclOneOf X n pd st =
     (let OneOfLoc = TokLoc (Tok st); st1 = consumeToken st
      in case parseAttributeList noAttributes st1 of
           (Attributes, st2) \<Rightarrow>
             (case parseIdentifier expected_identifier_in_decl [ArgText ''oneof''] st2 of
                (None, st3) \<Rightarrow> Inr (None, st3)
              | (Some OneOfName, st3) \<Rightarrow>
                  (case addTypeAliasToScope (TokLoc (Tok st2)) OneOfName None st3 of
                     (TAD, st4) \<Rightarrow>
                       (case parseDeclOneOfBody X n pd OneOfLoc Attributes (Some TAD) st4 of
                          Inl f \<Rightarrow> Inl f
                        | Inr (None, st5) \<Rightarrow> Inr (None, st5)
                        | Inr (Some OneOfTy, st5) \<Rightarrow> Inr (Some TAD, st5)))))"

definition isTransparentType :: "pstate \<Rightarrow> nat \<Rightarrow> bool" where
  \<comment> \<open>Modelled from the spec: a union is a struct when it has a single case and that case carries a payload.\<close>
  "isTransparentType st OneOfTy =
     (case Elements (OneOfStore st OneOfTy) of
        [E] \<Rightarrow> getArgumentType st E \<noteq> None
      | _ \<Rightarrow> False)"

definition parseDeclStruct ::
  "Externals \<Rightarrow> nat \<Rightarrow> ParseDeclFn \<Rightarrow> DeclPtr list \<Rightarrow> pstate
     \<Rightarrow> Fault + (bool \<times> DeclPtr list \<times> pstate)" where
  "parseDeclStruct X n pd Decls st =
     (let StructLoc = TokLoc (Tok st); st1 = consumeToken st
      in case parseAttributeList noAttributes st1 of
           (Attributes, st2) \<Rightarrow>
             (case parseIdentifier expected_identifier_in_decl [ArgText ''struct''] st2 of
                (None, st3) \<Rightarrow> Inr (True, Decls, st3)
              | (Some StructName, st3) \<Rightarrow>
                  (case parseToken tok_l_brace expected_lbrace_struct st3 of
                     (True, st4) \<Rightarrow> Inr (True, Decls, st4)
                   | (False, st4) \<Rightarrow>
                       (let LBLoc = TokLoc (Tok st3)
                        in case addTypeAliasToScope StructLoc StructName None st4 of
                             (TAD, st5) \<Rightarrow>
                               (case parseTypeTupleBody X LBLoc st5 of
                                  (None, st6) \<Rightarrow> Inr (True, Decls, st6)
                                | (Some BodyTy, st6) \<Rightarrow>
                                    (case BodyTy of
                                       TupleType Fields \<Rightarrow>
                                         (case parseMemberDecls X pd {PD_DisallowVar, PD_DisallowOperators} n []
                                                 (fold (\<lambda>Elt s. if snd Elt = []
                                                                  then diagnose LBLoc struct_unnamed_member [] s
                                                                  else s) Fields st6) of
                                            Inl f \<Rightarrow> Inl f
                                          | Inr (MemberDecls, st8) \<Rightarrow>
                                              (case parseMatchingToken tok_r_brace expected_rbrace_struct
                                                      LBLoc opening_brace st8 of
                                                 (True, st9) \<Rightarrow> Inr (True, Decls, st9)
                                               | (False, st9) \<Rightarrow>
                                                   (case actOnOneOfType StructLoc Attributes
                                                           [\<lparr>EltName = StructName, EltNameLoc = StructLoc,
                                                              EltType = Some BodyTy\<rparr>]
                                                           MemberDecls (Some TAD) st9 of
                                                      Inl f \<Rightarrow> Inl f
                                                    | Inr (OneOfTy, st10) \<Rightarrow>
                                                        if \<not> isTransparentType st10 OneOfTy then Inl AssertFailed
                                                        else
                                                          (case Elements (OneOfStore st10 OneOfTy) of
                                                             [E] \<Rightarrow>
                                                               Inr (False, Decls @ [Some TAD, Some E],
                                                                    addToScope E st10)
                                                           | _ \<Rightarrow> Inl AssertFailed))))
                                     | _ \<Rightarrow> Inl AssertFailed))))))"

definition parseDeclExtension ::
  "Externals \<Rightarrow> nat \<Rightarrow> ParseDeclFn \<Rightarrow> pstate \<Rightarrow> Fault + (DeclPtr \<times> pstate)" where
  "parseDeclExtension X n pd st =
     (let ExtensionLoc = TokLoc (Tok st); st1 = consumeToken st
      in case parseTypeIdentifier X st1 of
           (None, st2) \<Rightarrow> Inr (None, st2)
         | (Some T, st2) \<Rightarrow>
             (case parseToken tok_l_brace expected_lbrace_oneof_type st2 of
                (True, st3) \<Rightarrow> Inr (None, st3)
              | (False, st3) \<Rightarrow>
                  (case parseMemberDecls X pd {} n [] st3 of
                     Inl f \<Rightarrow> Inl f
                   | Inr (MemberDecls, st4) \<Rightarrow>
                       (let st5 = snd (parseMatchingToken tok_r_brace expected_rbrace_extension
                                         (TokLoc (Tok st2)) opening_brace st4)
                        in case newDecl \<lparr>Kind = ExtensionDecl T MemberDecls, LocStart = ExtensionLoc,
                                          Name = [], Ty = None, Context = CurDeclContext st5,
                                          UnderlyingTy = None\<rparr> st5 of
                             (D, st6) \<Rightarrow> Inr (Some D, st6)))))"

primrec parseProtocolElements ::
  "Externals \<Rightarrow> Type \<Rightarrow> nat \<Rightarrow> nat list \<Rightarrow> pstate \<Rightarrow> Fault + (nat list option \<times> pstate)" where
  "parseProtocolElements X ThisType 0 Elts st = Inl OutOfFuel"
| "parseProtocolElements X ThisType (Suc n) Elts st =
     (case (if TokIs st tok_r_brace then (Some Elts, st)
            else if TokIs st tok_kw_func then
              (case parseDeclFunc X (Some ThisType) st of
                 (None, st1) \<Rightarrow> (None, st1)
               | (Some D, st1) \<Rightarrow> (Some (Elts @ [D]), st1))
            else if TokIs st tok_kw_var then
              (case parseDeclVarSimple X st of
                 (None, st1) \<Rightarrow> (None, st1)
               | (Some D, st1) \<Rightarrow> (Some (Elts @ [D]), st1))
            else (None, diagnose (TokLoc (Tok st)) expected_protocol_member [] st)) of
        (None, st1) \<Rightarrow> Inr (None, st1)
      | (Some Elts1, st1) \<Rightarrow>
          if \<not> TokIs st1 tok_r_brace then parseProtocolElements X ThisType n Elts1 st1
          else Inr (Some Elts1, st1))"

definition parseProtocolBody ::
  "Externals \<Rightarrow> nat \<Rightarrow> SourceLoc \<Rightarrow> DeclAttributes \<Rightarrow> nat \<Rightarrow> pstate \<Rightarrow> Fault + (Type option \<times> pstate)" where
  "parseProtocolBody X n L Attributes TypeName st =
     (case parseToken tok_l_brace expected_lbrace_protocol_type st of
        (True, st1) \<Rightarrow> Inr (None, st1)
      | (False, st1) \<Rightarrow>
          (case parseProtocolElements X (getAliasType TypeName) n [] st1 of
             Inl f \<Rightarrow> Inl f
           | Inr (None, st2) \<Rightarrow> Inr (None, st2)
           | Inr (Some Elts, st2) \<Rightarrow>
               (let st3 = consumeToken st2;
                    st4 = (if \<not> attrsEmpty Attributes
                           then diagnose (LSquareLoc Attributes) protocol_attributes [] st3
                           else st3)
                in case newProtocolType L Elts (CurDeclContext st4) st4 of
                     (NewProto, st5) \<Rightarrow>
                       Inr (Some (ProtocolType NewProto),
                            setUnderlyingType TypeName (ProtocolType NewProto)
                              (fold (\<lambda>D. setDeclContext D (ProtocolTypeDC NewProto)) Elts st5)))))"

definition parseDeclProtocol :: "Externals \<Rightarrow> nat \<Rightarrow> pstate \<Rightarrow> Fault + (DeclPtr \<times> pstate)" where
  "parseDeclProtocol X n st =
     (let ProtocolLoc = TokLoc (Tok st); st1 = consumeToken st
      in case parseAttributeList noAttributes st1 of
           (Attributes, st2) \<Rightarrow>
             (case parseIdentifier expected_identifier_in_decl [ArgText ''protocol''] st2 of
                (None, st3) \<Rightarrow> Inr (None, st3)
              | (Some ProtocolName, st3) \<Rightarrow>
                  (case addTypeAliasToScope (TokLoc (Tok st2)) ProtocolName None st3 of
                     (TAD, st4) \<Rightarrow>
                       (case parseProtocolBody X n ProtocolLoc Attributes TAD st4 of
                          Inl f \<Rightarrow> Inl f
                        | Inr (None, st5) \<Rightarrow> Inr (None, st5)
                        | Inr (Some ProtocolTy, st5) \<Rightarrow> Inr (Some TAD, st5)))))"


section \<open>The declaration dispatcher and the translation unit\<close>

definition isImportDecl :: "Decl \<Rightarrow> bool" where
  "isImportDecl d = (case Kind d of ImportDecl P \<Rightarrow> True | _ \<Rightarrow> False)"

definition isNamedDecl :: "Decl \<Rightarrow> bool" where
  \<comment> \<open>Every declaration but an import and an extension carries a name.\<close>
  "isNamedDecl d = (case Kind d of ImportDecl P \<Rightarrow> False | ExtensionDecl T M \<Rightarrow> False | _ \<Rightarrow> True)"

definition isIdentifierStart :: "char \<Rightarrow> bool" where
  "isIdentifierStart c =
     (c = CHR ''_''
      \<or> (of_char CHR ''a'' \<le> (of_char c :: nat) \<and> (of_char c :: nat) \<le> of_char CHR ''z'')
      \<or> (of_char CHR ''A'' \<le> (of_char c :: nat) \<and> (of_char c :: nat) \<le> of_char CHR ''Z''))"

definition isOperator :: "Decl \<Rightarrow> bool" where
  \<comment> \<open>Modelled from the spec: a declaration is operator-named when its name is an operator token
      used as a name, that is, a non-empty name that does not start like an identifier.\<close>
  "isOperator d = (case Name d of [] \<Rightarrow> False | c # cs \<Rightarrow> \<not> isIdentifierStart c)"

definition validateDecl :: "PDFlag set \<Rightarrow> nat \<Rightarrow> pstate \<Rightarrow> pstate" where
  "validateDecl Flags D st =
     (let st1 = (if isImportDecl (DeclStore st D) \<and> PD_AllowImport \<notin> Flags
                 then diagnose (LocStart (DeclStore st D)) import_inner_scope [] st
                 else st)
      in if isVarDecl (DeclStore st1 D) \<and> PD_DisallowVar \<in> Flags
         then diagnose (LocStart (DeclStore st1 D)) disallowed_var_decl [] st1
         else if isNamedDecl (DeclStore st1 D)
                 \<and> isOperator (DeclStore st1 D) \<and> PD_DisallowOperators \<in> Flags
         then diagnose (LocStart (DeclStore st1 D)) operator_in_decl [] st1
         else st1)"

fun validateEntries :: "PDFlag set \<Rightarrow> DeclPtr list \<Rightarrow> pstate \<Rightarrow> Fault + pstate" where
  "validateEntries Flags [] st = Inr st"
| "validateEntries Flags (None # Ds) st = Inl NullDeref"
| "validateEntries Flags (Some D # Ds) st = validateEntries Flags Ds (validateDecl Flags D st)"

definition pushResult ::
  "DeclPtr list \<Rightarrow> Fault + (DeclPtr \<times> pstate) \<Rightarrow> Fault + (bool \<times> DeclPtr list \<times> pstate)" where
  \<comment> \<open>\<^verbatim>\<open>Entries.push_back(parseDeclX())\<close>: the result is pushed even when it is null.\<close>
  "pushResult Entries r =
     (case r of Inl f \<Rightarrow> Inl f | Inr (D, st1) \<Rightarrow> Inr (False, Entries @ [D], st1))"

definition parseDeclSwitch ::
  "Externals \<Rightarrow> nat \<Rightarrow> ParseDeclFn \<Rightarrow> DeclPtr list \<Rightarrow> pstate
     \<Rightarrow> Fault + (bool \<times> DeclPtr list \<times> pstate)" where
  \<comment> \<open>The switch on the leading token: the parse-error flag so far, the entries and the state.\<close>
  "parseDeclSwitch X n pd Entries st =
     (if TokIs st tok_kw_import then pushResult Entries (Inr (parseDeclImport st))
      else if TokIs st tok_kw_extension then pushResult Entries (parseDeclExtension X n pd st)
      else if TokIs st tok_kw_var then Inr (parseDeclVar X Entries st)
      else if TokIs st tok_kw_typealias then pushResult Entries (Inr (parseDeclTypeAlias X st))
      else if TokIs st tok_kw_oneof then pushResult Entries (parseDeclOneOf X n pd st)
      else if TokIs st tok_kw_struct then parseDeclStruct X n pd Entries st
      else if TokIs st tok_kw_protocol then pushResult Entries (parseDeclProtocol X n st)
      else if TokIs st tok_kw_func then pushResult Entries (Inr (parseDeclFunc X None st))
      else Inr (True, Entries, diagnose (TokLoc (Tok st)) expected_decl [] st))"

definition parseDeclWith ::
  "Externals \<Rightarrow> nat \<Rightarrow> ParseDeclFn \<Rightarrow> DeclPtr list \<Rightarrow> PDFlag set \<Rightarrow> pstate
     \<Rightarrow> Fault + (bool \<times> DeclPtr list \<times> pstate)" where
  \<comment> \<open>The body of \<open>parseDecl\<close>, its recursive calls made through \<open>pd\<close>.
      \<^verbatim>\<open>Entries.back()\<close> on an empty vector is out of bounds: the fault \<open>EmptyBack\<close>.
      The validation loop runs from \<open>EntryStart\<close> while \<^verbatim>\<open>i != e\<close>, so it leaves the
      vector when \<open>EntryStart\<close> is beyond its size.\<close>
  "parseDeclWith X n pd Entries Flags st =
     (let EntryStart = length Entries
      in case parseDeclSwitch X n pd Entries st of
           Inl f \<Rightarrow> Inl f
         | Inr (HadParseError, Entries1, st1) \<Rightarrow>
             if Entries1 = [] then Inl EmptyBack
             else
               (let Entries2 = (if last Entries1 = None then butlast Entries1 else Entries1);
                    HadParseError2 = (if last Entries1 = None then True else HadParseError)
                in if length Entries2 < EntryStart then Inl IndexOutOfBounds
                   else
                     (case validateEntries Flags (drop EntryStart Entries2) st1 of
                        Inl f \<Rightarrow> Inl f
                      | Inr st2 \<Rightarrow> Inr (HadParseError2, Entries2, st2))))"

primrec parseDecl :: "Externals \<Rightarrow> nat \<Rightarrow> ParseDeclFn" where
  "parseDecl X 0 = (\<lambda>Entries Flags st. Inl OutOfFuel)"
| "parseDecl X (Suc n) = parseDeclWith X n (parseDecl X n)"

record TranslationUnit =
  TUName :: Identifier
  Body :: "SourceLoc \<times> ExprStmtOrDecl list \<times> SourceLoc"
  UnresolvedTypesForParser :: "nat list"
  UnresolvedScopedTypesForParser :: "nat list"

definition parseTranslationUnit ::
  "Externals \<Rightarrow> Identifier \<Rightarrow> pstate \<Rightarrow> Fault + (TranslationUnit \<times> pstate)" where
  \<comment> \<open>\<open>Tok st\<close> is the head of the remaining input, so priming the lexer (the first
      \<^verbatim>\<open>consumeToken()\<close>) is what makes the first token current: the identity here. The prepass
      over the body's declarations has no effect and is left out.\<close>
  "parseTranslationUnit X ModuleName st =
     (let FileStartLoc = TokLoc (Tok st);
          st1 = st\<lparr>CurDeclContext := TranslationUnitDC\<rparr>
      in case parseBraceItemList X True st1 of
           Inl f \<Rightarrow> Inl f
         | Inr (Items, st2) \<Rightarrow>
             Inr (\<lparr>TUName = ModuleName,
                   Body = (FileStartLoc, Items, TokLoc (Tok st2)),
                   UnresolvedTypesForParser =
                     filter (\<lambda>D. \<not> hasUnderlyingType st2 D) (UnresolvedTypeList (ScopeInfo st2)),
                   UnresolvedScopedTypesForParser = UnresolvedScopedTypeList (ScopeInfo st2)\<rparr>,
                  st2))"


section \<open>A reference instance of the collaborators\<close>

text \<open>
  To run the parser on concrete token streams the black boxes need an instance. This one
  is deliberately small: a type is a name, a parenthesised tuple whose fields may be named,
  or an arrow between two types; a value specifier is an optional \<^verbatim>\<open>: type\<close> followed by an
  optional \<^verbatim>\<open>= expr\<close>, the expression being one token or one balanced parenthesis group;
  a brace statement is one balanced brace group. Expressions and statements are
  represented by the location of their first token. The general theorems below hold for
  every instance; this one only serves the examples.
\<close>

fun refType :: "nat \<Rightarrow> diag_id \<Rightarrow> pstate \<Rightarrow> Type option \<times> pstate"
  and refTupleBody :: "nat \<Rightarrow> (Type \<times> Identifier) list \<Rightarrow> pstate
                         \<Rightarrow> (Type \<times> Identifier) list option \<times> pstate" where
  "refType 0 D st = (None, st)"
| "refType (Suc n) D st =
     (case (if TokIs st tok_identifier then
              (case lookupOrInsertTypeName (TokText (Tok st)) (TokLoc (Tok st)) (consumeToken st) of
                 (T, st1) \<Rightarrow> (Some T, st1))
            else if TokIs st tok_l_paren \<or> TokIs st tok_l_paren_space then
              (case refTupleBody n [] (consumeToken st) of
                 (None, st1) \<Rightarrow> (None, st1)
               | (Some Fields, st1) \<Rightarrow>
                   (case parseToken tok_r_paren D st1 of
                      (True, st2) \<Rightarrow> (None, st2)
                    | (False, st2) \<Rightarrow> (Some (TupleType Fields), st2)))
            else (None, diagnose (TokLoc (Tok st)) D [] st)) of
        (None, st3) \<Rightarrow> (None, st3)
      | (Some T, st3) \<Rightarrow>
          if TokIs st3 tok_arrow then
            (case refType n D (consumeToken st3) of
               (None, st4) \<Rightarrow> (None, st4)
             | (Some R, st4) \<Rightarrow> (Some (FunctionType T R), st4))
          else (Some T, st3))"
| "refTupleBody 0 Fields st = (None, st)"
| "refTupleBody (Suc n) Fields st =
     (if TokIs st tok_identifier \<or> TokIs st tok_l_paren \<or> TokIs st tok_l_paren_space then
        (case (if TokIs st tok_identifier \<and> TokIs (consumeToken st) tok_colon
               then (TokText (Tok st), refType n expected_type (consumeToken (consumeToken st)))
               else ([], refType n expected_type st)) of
           (FieldName, None, st1) \<Rightarrow> (None, st1)
         | (FieldName, Some T, st1) \<Rightarrow>
             if TokIs st1 tok_comma
             then refTupleBody n (Fields @ [(T, FieldName)]) (consumeToken st1)
             else (Some (Fields @ [(T, FieldName)]), st1))
      else (Some Fields, st))"

fun skipBalanced :: "tok \<Rightarrow> tok \<Rightarrow> nat \<Rightarrow> Token list \<Rightarrow> Token list option" where
  "skipBalanced Open Close depth [] = None"
| "skipBalanced Open Close depth (t # ts) =
     (if TokKind t = Close then (case depth of 0 \<Rightarrow> Some ts | Suc d \<Rightarrow> skipBalanced Open Close d ts)
      else if TokKind t = Open then skipBalanced Open Close (Suc depth) ts
      else skipBalanced Open Close depth ts)"

definition refExpr :: "pstate \<Rightarrow> nat option \<times> pstate" where
  "refExpr st =
     (if TokIs st tok_eof then (None, diagnose (TokLoc (Tok st)) invalid_diagnostic [] st)
      else if TokIs st tok_l_paren \<or> TokIs st tok_l_paren_space then
        (case skipBalanced (TokKind (Tok st)) tok_r_paren 0 (tl (Toks st)) of
           None \<Rightarrow> (None, diagnose (TokLoc (Tok st)) invalid_diagnostic [] st)
         | Some ts \<Rightarrow> (Some (TokLoc (Tok st)), st\<lparr>Toks := ts\<rparr>))
      else (Some (TokLoc (Tok st)), consumeToken st))"

definition refValueSpecifier :: "bool \<Rightarrow> pstate \<Rightarrow> (Type option \<times> nat option) option \<times> pstate" where
  "refValueSpecifier single st =
     (case (if TokIs st tok_colon then
              (case refType (2 * length (Toks st) + 2) expected_type (consumeToken st) of
                 (None, st1) \<Rightarrow> (None, st1)
               | (Some T, st1) \<Rightarrow> (Some (Some T), st1))
            else (Some None, st)) of
        (None, st1) \<Rightarrow> (None, st1)
      | (Some Ty0, st1) \<Rightarrow>
          if TokIs st1 tok_equal then
            (case refExpr (consumeToken st1) of
               (None, st2) \<Rightarrow> (None, st2)
             | (Some Init, st2) \<Rightarrow> (Some (Ty0, Some Init), st2))
          else if Ty0 = None then (None, diagnose (TokLoc (Tok st1)) expected_type [] st1)
          else (Some (Ty0, None), st1))"

definition refStmtBrace :: "diag_id \<Rightarrow> pstate \<Rightarrow> nat option \<times> pstate" where
  "refStmtBrace D st =
     (if TokIs st tok_l_brace then
        (case skipBalanced tok_l_brace tok_r_brace 0 (tl (Toks st)) of
           None \<Rightarrow> (None, diagnose (TokLoc (Tok st)) D [] st)
         | Some ts \<Rightarrow> (Some (TokLoc (Tok st)), st\<lparr>Toks := ts\<rparr>))
      else (None, diagnose (TokLoc (Tok st)) D [] st))"

definition refFuncExprStart :: "SourceLoc \<Rightarrow> Type \<Rightarrow> pstate \<Rightarrow> nat \<times> pstate" where
  "refFuncExprStart L T st = (NextFuncExpr st, st\<lparr>NextFuncExpr := Suc (NextFuncExpr st)\<rparr>)"

definition isDeclStart :: "tok \<Rightarrow> bool" where
  "isDeclStart K =
     (K = tok_kw_import \<or> K = tok_kw_extension \<or> K = tok_kw_var \<or> K = tok_kw_typealias
      \<or> K = tok_kw_oneof \<or> K = tok_kw_struct \<or> K = tok_kw_protocol \<or> K = tok_kw_func)"

definition refSkipUntilDeclRBrace :: "pstate \<Rightarrow> pstate" where
  "refSkipUntilDeclRBrace st =
     st\<lparr>Toks := dropWhile (\<lambda>t. TokKind t \<noteq> tok_eof \<and> TokKind t \<noteq> tok_r_brace
                                 \<and> \<not> isDeclStart (TokKind t)) (Toks st)\<rparr>"

fun refTypeForPath :: "Type option \<Rightarrow> nat list \<Rightarrow> Type option" where
  "refTypeForPath None Path = None"
| "refTypeForPath (Some T) [] = Some T"
| "refTypeForPath (Some DependentType) (i # Path) = Some DependentType"
| "refTypeForPath (Some (TupleType Fields)) (i # Path) =
     (if i < length Fields then refTypeForPath (Some (fst (Fields ! i))) Path else None)"
| "refTypeForPath (Some T) (i # Path) = None"

definition refX0 :: Externals where
  "refX0 =
     \<lparr>parseType = (\<lambda>D st. refType (2 * length (Toks st) + 2) D st),
      parseTypeIdentifier = (\<lambda>st. refType (2 * length (Toks st) + 2) expected_type st),
      parseTypeTupleBody = (\<lambda>L st. case refTupleBody (2 * length (Toks st) + 2) [] st of
                                      (None, st1) \<Rightarrow> (None, st1)
                                    | (Some Fields, st1) \<Rightarrow> (Some (TupleType Fields), st1)),
      parseValueSpecifier = refValueSpecifier,
      parseStmtBrace = refStmtBrace,
      actOnFuncExprStart = refFuncExprStart,
      skipUntilDeclRBrace = refSkipUntilDeclRBrace,
      getTypeForPath = refTypeForPath,
      parseBraceItemList = (\<lambda>IsTopLevel st. Inr ([], st))\<rparr>"

fun itemsOf :: "DeclPtr list \<Rightarrow> ExprStmtOrDecl list" where
  "itemsOf [] = []"
| "itemsOf (None # Ds) = itemsOf Ds"
| "itemsOf (Some D # Ds) = ItemDecl D # itemsOf Ds"

primrec refBraceItemList ::
  "nat \<Rightarrow> bool \<Rightarrow> ExprStmtOrDecl list \<Rightarrow> pstate \<Rightarrow> Fault + (ExprStmtOrDecl list \<times> pstate)" where
  "refBraceItemList 0 IsTopLevel Items st =
     (if TokIs st tok_eof \<or> TokIs st tok_r_brace then Inr (Items, st) else Inl OutOfFuel)"
| "refBraceItemList (Suc n) IsTopLevel Items st =
     (if TokIs st tok_eof \<or> TokIs st tok_r_brace then Inr (Items, st)
      else if isDeclStart (TokKind (Tok st)) then
        (case parseDecl refX0 (Suc n) [] (if IsTopLevel then {PD_AllowImport} else {}) st of
           Inl f \<Rightarrow> Inl f
         | Inr (HadError, TmpDecls, st1) \<Rightarrow>
             refBraceItemList n IsTopLevel (Items @ itemsOf TmpDecls)
               (if HadError then refSkipUntilDeclRBrace st1 else st1))
      else refBraceItemList n IsTopLevel (Items @ [ItemExpr (TokLoc (Tok st))]) (consumeToken st))"

definition refX :: Externals where
  "refX = refX0\<lparr>parseBraceItemList := (\<lambda>IsTopLevel st. refBraceItemList (Suc (length (Toks st))) IsTopLevel [] st)\<rparr>"

definition nullDecl :: Decl where
  "nullDecl = \<lparr>Kind = TypeAliasDecl, LocStart = 0, Name = [], Ty = None,
               Context = TranslationUnitDC, UnderlyingTy = None\<rparr>"

definition initState :: "Token list \<Rightarrow> pstate" where
  "initState ts =
     \<lparr>Toks = ts, Diags = [], DeclStore = (\<lambda>D. nullDecl), NextDecl = 0,
      OneOfStore = (\<lambda>T. \<lparr>OneOfLoc = 0, Elements = [], OneOfParent = TranslationUnitDC\<rparr>),
      NextOneOf = 0,
      ProtocolStore = (\<lambda>T. \<lparr>ProtocolLoc = 0, ProtoElements = [], ProtoParent = TranslationUnitDC\<rparr>),
      NextProtocol = 0, FuncExprBody = (\<lambda>FE. None), NextFuncExpr = 0,
      CurDeclContext = TranslationUnitDC,
      ScopeInfo = \<lparr>Bindings = [], UnresolvedTypeList = [], UnresolvedScopedTypeList = []\<rparr>\<rparr>"

primrec lexed :: "nat \<Rightarrow> (tok \<times> string) list \<Rightarrow> Token list" where
  "lexed n [] = []"
| "lexed n (k # ks) = \<lparr>TokKind = fst k, TokText = snd k, TokLoc = n\<rparr> # lexed (Suc n) ks"


section \<open>Observing results\<close>

definition faultOf :: "Fault + 'a \<Rightarrow> Fault option" where
  "faultOf r = (case r of Inl f \<Rightarrow> Some f | Inr v \<Rightarrow> None)"

definition valueOf :: "Fault + ('a \<times> pstate) \<Rightarrow> 'a option" where
  "valueOf r = (case r of Inl f \<Rightarrow> None | Inr v \<Rightarrow> Some (fst v))"

definition stateOf :: "Fault + ('a \<times> pstate) \<Rightarrow> pstate option" where
  "stateOf r = (case r of Inl f \<Rightarrow> None | Inr v \<Rightarrow> Some (snd v))"

definition allDecls :: "pstate \<Rightarrow> Decl list" where
  \<comment> \<open>Every declaration allocated so far, in allocation order.\<close>
  "allDecls st = map (DeclStore st) [0..<NextDecl st]"

definition scopeBindings :: "pstate \<Rightarrow> (Identifier \<times> nat) list" where
  "scopeBindings st = Bindings (ScopeInfo st)"

definition declResultOf :: "Fault + (bool \<times> DeclPtr list \<times> pstate) \<Rightarrow> (bool \<times> DeclPtr list) option" where
  "declResultOf r = (case r of Inl f \<Rightarrow> None | Inr v \<Rightarrow> Some (fst v, fst (snd v)))"

definition declStateOf :: "Fault + (bool \<times> DeclPtr list \<times> pstate) \<Rightarrow> pstate option" where
  "declStateOf r = (case r of Inl f \<Rightarrow> None | Inr v \<Rightarrow> Some (snd (snd v)))"

section \<open>The end of the translation unit\<close>

lemma faultOf_None_iff: "faultOf r = None \<longleftrightarrow> (\<exists>v. r = Inr v)"
  by (cases r) (simp_all add: faultOf_def)

definition unresolvedAtEOF :: "Token list" where
  \<comment> \<open>\<^verbatim>\<open>var x : Foo\<close>, with \<^verbatim>\<open>Foo\<close> never defined.\<close>
  "unresolvedAtEOF =
     lexed 1 [(tok_kw_var, ''var''), (tok_identifier, ''x''), (tok_colon, '':''), (tok_identifier, ''Foo'')]"

text \<open>
  C1, as stated, fails: for the file \<^verbatim>\<open>var x : Foo\<close> the alias \<^verbatim>\<open>Foo\<close> (declaration 0)
  is a stub at end of file and is left in the worklist, yet the parser has emitted no
  diagnostic at all when \<open>parseTranslationUnit\<close> returns.
\<close>

theorem C1_no_diagnostic_at_eof:
  "map_option Diags (stateOf (parseTranslationUnit refX ''m'' (initState unresolvedAtEOF))) = Some []
   \<and> map_option UnresolvedTypesForParser (valueOf (parseTranslationUnit refX ''m'' (initState unresolvedAtEOF)))
       = Some [0]
   \<and> map_option allDecls (stateOf (parseTranslationUnit refX ''m'' (initState unresolvedAtEOF)))
       = Some [\<lparr>Kind = TypeAliasDecl, LocStart = 4, Name = ''Foo'', Ty = None,
                 Context = TranslationUnitDC, UnderlyingTy = None\<rparr>,
               \<lparr>Kind = VarDecl None None noAttributes, LocStart = 1, Name = ''x'',
                 Ty = Some (NameAliasType 0), Context = TranslationUnitDC, UnderlyingTy = None\<rparr>]"
  by code_simp

text \<open>
  C1, amended: at end of file \<open>parseTranslationUnit\<close> emits no diagnostic and changes
  nothing (the state it returns is the one the body parser left). It records in the
  translation unit, in worklist order, exactly the aliases of the unresolved worklist that
  still have no underlying type, and copies the scoped worklist, for a later pass.
\<close>

theorem C1_parseTranslationUnit_records_unresolved:
  assumes "parseTranslationUnit X M st = Inr (TU, st')"
  shows "(\<exists>Items. parseBraceItemList X True (st\<lparr>CurDeclContext := TranslationUnitDC\<rparr>) = Inr (Items, st'))
         \<and> UnresolvedTypesForParser TU
             = filter (\<lambda>D. \<not> hasUnderlyingType st' D) (UnresolvedTypeList (ScopeInfo st'))
         \<and> UnresolvedScopedTypesForParser TU = UnresolvedScopedTypeList (ScopeInfo st')"
  using assms
  by (auto simp: parseTranslationUnit_def Let_def split: sum.splits prod.splits)

theorem C1_parseTranslationUnit_records_unresolved_witness:
  "\<exists>TU st'. parseTranslationUnit refX ''m'' (initState unresolvedAtEOF) = Inr (TU, st')
      \<and> UnresolvedTypesForParser TU
          = filter (\<lambda>D. \<not> hasUnderlyingType st' D) (UnresolvedTypeList (ScopeInfo st'))
      \<and> UnresolvedScopedTypesForParser TU = UnresolvedScopedTypeList (ScopeInfo st')"
proof -
  have "faultOf (parseTranslationUnit refX ''m'' (initState unresolvedAtEOF)) = None"
    by code_simp
  then obtain TU st' where e: "parseTranslationUnit refX ''m'' (initState unresolvedAtEOF) = Inr (TU, st')"
    by (auto simp: faultOf_None_iff)
  from C1_parseTranslationUnit_records_unresolved[OF e] e show ?thesis
    by blast
qed

section \<open>Attribute lists and recovery\<close>



















section \<open>The dispatcher reads the last entry of a possibly empty list\<close>

lemma parseDecl_not_a_declaration:
  "\<not> isDeclStart (TokKind (Tok st)) \<Longrightarrow> parseDecl X (Suc n) [] Flags st = Inl EmptyBack"
  by (simp add: parseDeclWith_def parseDeclSwitch_def isDeclStart_def TokIs_def)

definition extensionVarFive :: "Token list" where
  \<comment> \<open>\<^verbatim>\<open>extension Foo { var 5 }\<close>\<close>
  "extensionVarFive =
     lexed 1 [(tok_kw_extension, ''extension''), (tok_identifier, ''Foo''), (tok_l_brace, ''{''),
              (tok_kw_var, ''var''), (tok_numeric_constant, ''5''), (tok_r_brace, ''}'')]"

text \<open>
  C9 fails on the code: \<open>parseDecl\<close> reads \<^verbatim>\<open>Entries.back()\<close> without checking that the
  vector is non-empty. For \<^verbatim>\<open>extension Foo { var 5 }\<close> the extension parser calls
  \<open>parseDecl\<close> with its fresh, empty member list; \<^verbatim>\<open>var\<close> is followed by no name, so
  \<open>parseDeclVar\<close> fails before pushing anything, and the read is out of bounds. The same
  happens when \<open>parseDecl\<close> is called directly with an empty list on \<^verbatim>\<open>var 5\<close>.
\<close>

theorem C9_back_of_empty_entries:
  "faultOf (parseDecl refX 3 [] {} (initState extensionVarFive)) = Some EmptyBack
   \<and> faultOf (parseDecl refX 1 [] {} (initState (drop 3 extensionVarFive))) = Some EmptyBack
   \<and> fst (parseDeclVar refX [] (initState (drop 3 extensionVarFive)))
   \<and> fst (snd (parseDeclVar refX [] (initState (drop 3 extensionVarFive)))) = []"
  by code_simp


section \<open>Validation of new entries against the restriction flags\<close>

definition violatesFlags :: "PDFlag set \<Rightarrow> Decl \<Rightarrow> bool" where
  \<comment> \<open>The violations named by the specification: an import where imports are not allowed, a var
      where vars are disallowed, an operator-named declaration where operators are disallowed.\<close>
  "violatesFlags Flags d =
     ((isImportDecl d \<and> PD_AllowImport \<notin> Flags)
      \<or> (isVarDecl d \<and> PD_DisallowVar \<in> Flags)
      \<or> (isNamedDecl d \<and> isOperator d \<and> PD_DisallowOperators \<in> Flags))"

definition validationDiagnostics :: "PDFlag set \<Rightarrow> Decl \<Rightarrow> Diagnostic list" where
  \<comment> \<open>What the dispatcher reports for one declaration, at the declaration's location.\<close>
  "validationDiagnostics Flags d =
     (if isImportDecl d \<and> PD_AllowImport \<notin> Flags then [(LocStart d, import_inner_scope, [])] else [])
     @ (if isVarDecl d \<and> PD_DisallowVar \<in> Flags then [(LocStart d, disallowed_var_decl, [])]
        else if isNamedDecl d \<and> isOperator d \<and> PD_DisallowOperators \<in> Flags
        then [(LocStart d, operator_in_decl, [])]
        else [])"

lemma validateDecl_eq:
  "validateDecl Flags D st = st\<lparr>Diags := Diags st @ validationDiagnostics Flags (DeclStore st D)\<rparr>"
  by (simp add: validateDecl_def validationDiagnostics_def diagnose_def Let_def)

lemma validateEntries_declarations:
  "validateEntries Flags (map Some New) st
     = Inr (st\<lparr>Diags := Diags st
                 @ concat (map (\<lambda>D. validationDiagnostics Flags (DeclStore st D)) New)\<rparr>)"
proof (induction New arbitrary: st)
  case Nil
  then show ?case by simp
next
  case (Cons D New)
  show ?case
    by (simp add: Cons.IH validateDecl_eq)
qed

lemma violatesFlags_diagnosed:
  "violatesFlags Flags d \<Longrightarrow>
     \<exists>x \<in> set (validationDiagnostics Flags d).
        fst x = LocStart d
      \<and> fst (snd x) \<in> {import_inner_scope, disallowed_var_decl, operator_in_decl}"
  by (auto simp: violatesFlags_def validationDiagnostics_def)

lemma appends_trans:
  assumes "\<exists>New. B = A @ map Some New" and "\<exists>New. C = B @ map Some New"
  shows "\<exists>New. C = A @ map Some New"
proof -
  from assms obtain N1 N2 where "B = A @ map Some N1" "C = B @ map Some N2"
    by blast
  then have "C = A @ map Some (N1 @ N2)"
    by simp
  then show ?thesis
    by blast
qed

lemma actOnVarDeclName_appends:
  "\<exists>New. fst (actOnVarDeclName X N P VD Decls st) = Decls @ map Some New"
  "\<exists>New. fst (actOnVarDeclNameElements X Es P I VD Decls st) = Decls @ map Some New"
proof (induction X N P VD Decls st and X Es P I VD Decls st
       rule: actOnVarDeclName_actOnVarDeclNameElements.induct)
  case (1 X Ident IdLoc AccessPath VD Decls st)
  show ?case
  proof (cases "getTypeForPath X (Ty (DeclStore st VD)) AccessPath")
    case None
    then show ?thesis
      by (intro exI[of _ "[]"]) simp
  next
    case (Some T)
    then show ?thesis
      by (intro exI[of _ "[fst (newDecl \<lparr>Kind = ElementRefDecl VD AccessPath, LocStart = IdLoc,
                                          Name = Ident, Ty = Some T, Context = CurDeclContext st,
                                          UnderlyingTy = None\<rparr> st)]"])
         (simp split: prod.splits)
  qed
next
  case (2 X LPLoc Elts RPLoc AccessPath VD Decls st)
  then show ?case by simp
next
  case (3 X AccessPath Index VD Decls st)
  show ?case
    by (intro exI[of _ "[]"]) simp
next
  case (4 X Element Elts AccessPath Index VD Decls st)
  obtain Decls1 st1 where r: "actOnVarDeclName X Element (AccessPath @ [Index]) VD Decls st = (Decls1, st1)"
    by (cases "actOnVarDeclName X Element (AccessPath @ [Index]) VD Decls st")
  have a: "\<exists>New. Decls1 = Decls @ map Some New"
    using 4(1) r by simp
  have b: "\<exists>New. fst (actOnVarDeclNameElements X Elts AccessPath (Suc Index) VD Decls1 st1)
                   = Decls1 @ map Some New"
    using 4(2)[OF r[symmetric]] by simp
  show ?case
    using appends_trans[OF a b] r by simp
qed

lemma parseDeclVar_appends:
  "\<exists>New. fst (snd (parseDeclVar X Decls st)) = Decls @ map Some New"
proof -
  have n: "\<exists>New. fst (actOnVarDeclName X N [] VD (Decls @ [Some VD]) s) = Decls @ map Some New"
    for N VD s
    by (rule appends_trans[OF _ actOnVarDeclName_appends(1)]) (rule exI[of _ "[VD]"], simp)
  have z: "\<exists>New. Decls = Decls @ map Some New"
    by (rule exI[of _ "[]"]) simp
  have o: "\<exists>New. Decls @ [Some VD] = Decls @ map Some New" for VD
    by (rule exI[of _ "[VD]"]) simp
  obtain A st2 where a: "parseAttributeList noAttributes (consumeToken st) = (A, st2)"
    by (cases "parseAttributeList noAttributes (consumeToken st)")
  obtain V st3 where v: "parseVarName st2 = (V, st3)"
    by (cases "parseVarName st2")
  show ?thesis
  proof (cases V)
    case None
    then show ?thesis
      using z by (simp add: parseDeclVar_def Let_def a v del: parseVarName.simps parseVarNameElts.simps parseAttributeRest.simps)
  next
    case (Some VarName)
    note sv = this
    obtain S st4 where s: "parseValueSpecifier X False st3 = (S, st4)"
      by (cases "parseValueSpecifier X False st3")
    show ?thesis
    proof (cases S)
      case None
      then show ?thesis
        using z by (simp add: parseDeclVar_def Let_def a v s sv del: parseVarName.simps parseVarNameElts.simps parseAttributeRest.simps)
    next
      case (Some p)
      obtain Ty0 Init where p: "p = (Ty0, Init)"
        by (cases p)
      show ?thesis
      proof (cases VarName)
        case (SimpleName Ident IdLoc)
        then show ?thesis
          using o by (simp add: parseDeclVar_def Let_def a v s sv Some p split: prod.split
                del: parseVarName.simps parseVarNameElts.simps parseAttributeRest.simps)
      next
        case (NestedName LPLoc Elts RPLoc)
        obtain VD st5 where d: "newDecl \<lparr>Kind = VarDecl (Some VarName) Init A,
                                   LocStart = TokLoc (Tok st), Name = [],
                                   Ty = Some (case Ty0 of None \<Rightarrow> DependentType | Some T0 \<Rightarrow> T0),
                                   Context = CurDeclContext st4, UnderlyingTy = None\<rparr> st4 = (VD, st5)"
          by (cases "newDecl \<lparr>Kind = VarDecl (Some VarName) Init A,
                                   LocStart = TokLoc (Tok st), Name = [],
                                   Ty = Some (case Ty0 of None \<Rightarrow> DependentType | Some T0 \<Rightarrow> T0),
                                   Context = CurDeclContext st4, UnderlyingTy = None\<rparr> st4")
        have "fst (snd (parseDeclVar X Decls st))
                = fst (actOnVarDeclName X VarName [] VD (Decls @ [Some VD]) st5)"
          using d unfolding NestedName
          by (simp add: parseDeclVar_def Let_def a v s sv Some p NestedName split: prod.split
                del: actOnVarDeclName.simps parseVarName.simps parseVarNameElts.simps
                  parseAttributeRest.simps)
        then show ?thesis
          using n[of VarName VD st5] by simp
      qed
    qed
  qed
qed

lemma parseDeclStruct_appends:
  assumes "parseDeclStruct X n pd Decls st = Inr (E, Decls1, st1)"
  shows "\<exists>New. Decls1 = Decls @ map Some New"
proof -
  have "Decls1 = Decls \<or> (\<exists>TAD El. Decls1 = Decls @ [Some TAD, Some El])"
    using assms unfolding parseDeclStruct_def Let_def
    by (auto split: prod.splits option.splits bool.splits Type.splits sum.splits list.splits
          if_splits)
  then show ?thesis
  proof
    assume "Decls1 = Decls"
    then show ?thesis
      by (intro exI[of _ "[]"]) simp
  next
    assume "\<exists>TAD El. Decls1 = Decls @ [Some TAD, Some El]"
    then obtain TAD El where "Decls1 = Decls @ [Some TAD, Some El]"
      by blast
    then show ?thesis
      by (intro exI[of _ "[TAD, El]"]) simp
  qed
qed

lemma pushResult_appends:
  assumes "pushResult Entries r = Inr (E, Entries1, st1)"
  shows "\<exists>New Tail. Entries1 = Entries @ map Some New @ Tail \<and> (Tail = [] \<or> Tail = [None])"
proof -
  from assms obtain D where e: "Entries1 = Entries @ [D]"
    by (auto simp: pushResult_def split: sum.splits prod.splits)
  show ?thesis
  proof (cases D)
    case None
    then show ?thesis
      using e by (intro exI[of _ "[]"] exI[of _ "[None]"]) simp
  next
    case (Some d)
    then show ?thesis
      using e by (intro exI[of _ "[d]"] exI[of _ "[]"]) simp
  qed
qed

lemma parseDeclSwitch_appends:
  assumes sw: "parseDeclSwitch X n pd Entries st = Inr (E, Entries1, st1)"
  shows "\<exists>New Tail. Entries1 = Entries @ map Some New @ Tail \<and> (Tail = [] \<or> Tail = [None])"
proof -
  have plain: "\<exists>New Tail. Entries1 = Entries @ map Some New @ Tail \<and> (Tail = [] \<or> Tail = [None])"
    if "\<exists>New. Entries1 = Entries @ map Some New"
    using that by (metis append_Nil2)
  consider
      (push) r where "pushResult Entries r = Inr (E, Entries1, st1)"
    | (var) "Entries1 = fst (snd (parseDeclVar X Entries st))"
    | (struct) "parseDeclStruct X n pd Entries st = Inr (E, Entries1, st1)"
    | (none) "Entries1 = Entries"
    using sw unfolding parseDeclSwitch_def
    by (auto split: if_splits)
  then show ?thesis
  proof cases
    case (push r)
    then show ?thesis by (rule pushResult_appends)
  next
    case var
    then show ?thesis
      using parseDeclVar_appends[of X Entries st] by (intro plain) simp
  next
    case struct
    then show ?thesis
      by (intro plain parseDeclStruct_appends)
  next
    case none
    then show ?thesis
      by (intro plain exI[of _ "[]"]) simp
  qed
qed

text \<open>
  C8: whenever the sub-parser chosen by the leading token returns, having left a non-empty
  list, and the entries the caller passed are declarations, \<open>parseDecl\<close> returns too. The
  sub-parser has appended declarations \<open>New\<close> only, followed by at most one null result.
  The list \<open>parseDecl\<close> returns is the caller's entries followed by all of \<open>New\<close>: nothing
  is discarded but the null result, which sets the error flag. The state is the one the
  sub-parser left, with the diagnostics of the validation appended in the order of \<open>New\<close>:
  for each new declaration, \<open>import_inner_scope\<close> if it is an import and imports are not
  allowed, then \<open>disallowed_var_decl\<close> if it is a var and vars are disallowed, or else
  \<open>operator_in_decl\<close> if it is operator-named and operators are disallowed, each at the
  location of the declaration. So every new declaration that violates a flag gets a
  diagnostic at its location.
\<close>

theorem C8_parseDecl_validates_and_keeps:
  assumes "parseDeclSwitch X n (parseDecl X n) Entries st = Inr (HadErr1, Entries1, st1)"
    and "None \<notin> set Entries"
    and "Entries1 \<noteq> []"
  shows "\<exists>New.
           Entries1 = Entries @ map Some New @ (if last Entries1 = None then [None] else [])
         \<and> parseDecl X (Suc n) Entries Flags st
             = Inr (HadErr1 \<or> last Entries1 = None,
                    Entries @ map Some New,
                    st1\<lparr>Diags := Diags st1
                          @ concat (map (\<lambda>D. validationDiagnostics Flags (DeclStore st1 D)) New)\<rparr>)
         \<and> (\<forall>D \<in> set New. violatesFlags Flags (DeclStore st1 D) \<longrightarrow>
               (\<exists>x \<in> set (validationDiagnostics Flags (DeclStore st1 D)).
                   fst x = LocStart (DeclStore st1 D)
                 \<and> fst (snd x) \<in> {import_inner_scope, disallowed_var_decl, operator_in_decl}))"
proof -
  from parseDeclSwitch_appends[OF assms(1)] obtain New Tail where
    e: "Entries1 = Entries @ map Some New @ Tail" and t: "Tail = [] \<or> Tail = [None]"
    by blast
  have l: "(last Entries1 = None) = (Tail = [None])"
  proof (cases "Tail = []")
    case True
    have "last (Entries @ map Some New) \<noteq> None"
    proof (cases "New = []")
      case True
      then have "Entries \<noteq> []"
        using e \<open>Tail = []\<close> assms(3) by simp
      then have "last Entries \<in> set Entries"
        by simp
      then have "last Entries \<noteq> None"
        using assms(2) by metis
      then show ?thesis
        using True by simp
    next
      case False
      then show ?thesis
        by (simp add: last_map)
    qed
    then show ?thesis
      using True e by simp
  next
    case False
    then show ?thesis
      using t e by simp
  qed
  have e1: "Entries1 = Entries @ map Some New @ (if last Entries1 = None then [None] else [])"
    using e t l by auto
  have b: "(if last Entries1 = None then butlast Entries1 else Entries1) = Entries @ map Some New"
    using e t l by (auto simp: butlast_append)
  have p: "parseDecl X (Suc n) Entries Flags st
             = Inr (HadErr1 \<or> last Entries1 = None,
                    Entries @ map Some New,
                    st1\<lparr>Diags := Diags st1
                          @ concat (map (\<lambda>D. validationDiagnostics Flags (DeclStore st1 D)) New)\<rparr>)"
  proof (cases "last Entries1 = None")
    case True
    then show ?thesis
      using assms(1) assms(3) b
      by (simp add: parseDeclWith_def Let_def validateEntries_declarations)
  next
    case False
    then show ?thesis
      using assms(1) assms(3) b
      by (simp add: parseDeclWith_def Let_def validateEntries_declarations del: not_None_eq)
  qed
  have v: "\<forall>D \<in> set New. violatesFlags Flags (DeclStore st1 D) \<longrightarrow>
               (\<exists>x \<in> set (validationDiagnostics Flags (DeclStore st1 D)).
                   fst x = LocStart (DeclStore st1 D)
                 \<and> fst (snd x) \<in> {import_inner_scope, disallowed_var_decl, operator_in_decl})"
    using violatesFlags_diagnosed by blast
  show ?thesis
    by (rule exI[of _ New]) (intro conjI, rule e1, rule p, rule v)
qed

definition importInBody :: "Token list" where
  \<comment> \<open>\<^verbatim>\<open>import swift\<close>, as met below the top level\<close>
  "importInBody = lexed 1 [(tok_kw_import, ''import''), (tok_identifier, ''swift'')]"

definition varInUnionBody :: "Token list" where
  \<comment> \<open>\<^verbatim>\<open>var + : Int\<close>, as met in the body of a union or struct\<close>
  "varInUnionBody =
     lexed 1 [(tok_kw_var, ''var''), (tok_oper, ''+''), (tok_colon, '':''), (tok_identifier, ''Int'')]"

theorem C8_parseDecl_validates_and_keeps_witness:
  "(\<exists>st1. parseDeclSwitch refX 0 (parseDecl refX 0) [] (initState importInBody) = Inr (False, [Some 0], st1)
        \<and> violatesFlags ({} :: PDFlag set) (DeclStore st1 0)
        \<and> parseDecl refX (Suc 0) [] ({} :: PDFlag set) (initState importInBody)
            = Inr (False, [Some 0], st1\<lparr>Diags := Diags st1 @ [(1, import_inner_scope, [])]\<rparr>))
   \<and> (\<exists>st1. parseDeclSwitch refX 0 (parseDecl refX 0) [] (initState varInUnionBody) = Inr (False, [Some 1], st1)
        \<and> violatesFlags {PD_DisallowVar, PD_DisallowOperators} (DeclStore st1 1)
        \<and> parseDecl refX (Suc 0) [] {PD_DisallowVar, PD_DisallowOperators} (initState varInUnionBody)
            = Inr (False, [Some 1], st1\<lparr>Diags := Diags st1 @ [(1, disallowed_var_decl, [])]\<rparr>))
   \<and> (\<exists>st1. parseDeclSwitch refX 0 (parseDecl refX 0) [] (initState varInUnionBody) = Inr (False, [Some 1], st1)
        \<and> violatesFlags {PD_DisallowOperators} (DeclStore st1 1)
        \<and> parseDecl refX (Suc 0) [] {PD_DisallowOperators} (initState varInUnionBody)
            = Inr (False, [Some 1], st1\<lparr>Diags := Diags st1 @ [(1, operator_in_decl, [])]\<rparr>))"
proof -
  have a: "\<exists>st1. parseDeclSwitch refX 0 (parseDecl refX 0) [] (initState importInBody) = Inr (False, [Some 0], st1)
          \<and> violatesFlags ({} :: PDFlag set) (DeclStore st1 0)
          \<and> parseDecl refX (Suc 0) [] ({} :: PDFlag set) (initState importInBody)
              = Inr (False, [Some 0], st1\<lparr>Diags := Diags st1 @ [(1, import_inner_scope, [])]\<rparr>)"
  proof -
    have r: "declResultOf (parseDeclSwitch refX 0 (parseDecl refX 0) [] (initState importInBody)) = Some (False, [Some 0])"
      by code_simp
    have d: "map_option (\<lambda>s. validationDiagnostics ({} :: PDFlag set) (DeclStore s 0))
               (declStateOf (parseDeclSwitch refX 0 (parseDecl refX 0) [] (initState importInBody)))
             = Some [(1, import_inner_scope, [])]"
      by code_simp
    have w: "map_option (\<lambda>s. violatesFlags ({} :: PDFlag set) (DeclStore s 0))
               (declStateOf (parseDeclSwitch refX 0 (parseDecl refX 0) [] (initState importInBody)))
             = Some True"
      by code_simp
    obtain st1 where e: "parseDeclSwitch refX 0 (parseDecl refX 0) [] (initState importInBody) = Inr (False, [Some 0], st1)"
      using r by (cases "parseDeclSwitch refX 0 (parseDecl refX 0) [] (initState importInBody)") (auto simp: declResultOf_def)
    have d1: "validationDiagnostics ({} :: PDFlag set) (DeclStore st1 0) = [(1, import_inner_scope, [])]"
      using d[unfolded e] by (simp add: declStateOf_def)
    have w1: "violatesFlags ({} :: PDFlag set) (DeclStore st1 0)"
      using w[unfolded e] by (simp add: declStateOf_def)
    have h: "None \<notin> set ([] :: DeclPtr list)" "[Some 0] \<noteq> ([] :: DeclPtr list)"
      by simp_all
    from C8_parseDecl_validates_and_keeps[OF e h, of "({} :: PDFlag set)"] obtain New where
      np: "[Some 0] = [] @ map Some New @ (if last [Some (0::nat)] = None then [None] else [])
         \<and> parseDecl refX (Suc 0) [] ({} :: PDFlag set) (initState importInBody)
            = Inr (False \<or> last [Some (0::nat)] = None, [] @ map Some New,
                   st1\<lparr>Diags := Diags st1
                         @ concat (map (\<lambda>D. validationDiagnostics ({} :: PDFlag set) (DeclStore st1 D)) New)\<rparr>)
         \<and> (\<forall>D \<in> set New. violatesFlags ({} :: PDFlag set) (DeclStore st1 D) \<longrightarrow>
               (\<exists>x \<in> set (validationDiagnostics ({} :: PDFlag set) (DeclStore st1 D)).
                   fst x = LocStart (DeclStore st1 D)
                 \<and> fst (snd x) \<in> {import_inner_scope, disallowed_var_decl, operator_in_decl}))"
      by (rule exE)
    note n = np[THEN conjunct1] and p = np[THEN conjunct2, THEN conjunct1]
    have "New = [0]"
      using n by auto
    then have "parseDecl refX (Suc 0) [] ({} :: PDFlag set) (initState importInBody)
            = Inr (False, [Some 0], st1\<lparr>Diags := Diags st1 @ [(1, import_inner_scope, [])]\<rparr>)"
      using p d1 by simp
    then show ?thesis
      using e w1 by blast
  qed
  have b: "\<exists>st1. parseDeclSwitch refX 0 (parseDecl refX 0) [] (initState varInUnionBody) = Inr (False, [Some 1], st1)
          \<and> violatesFlags {PD_DisallowVar, PD_DisallowOperators} (DeclStore st1 1)
          \<and> parseDecl refX (Suc 0) [] {PD_DisallowVar, PD_DisallowOperators} (initState varInUnionBody)
              = Inr (False, [Some 1], st1\<lparr>Diags := Diags st1 @ [(1, disallowed_var_decl, [])]\<rparr>)"
  proof -
    have r: "declResultOf (parseDeclSwitch refX 0 (parseDecl refX 0) [] (initState varInUnionBody)) = Some (False, [Some 1])"
      by code_simp
    have d: "map_option (\<lambda>s. validationDiagnostics {PD_DisallowVar, PD_DisallowOperators} (DeclStore s 1))
               (declStateOf (parseDeclSwitch refX 0 (parseDecl refX 0) [] (initState varInUnionBody)))
             = Some [(1, disallowed_var_decl, [])]"
      by code_simp
    have w: "map_option (\<lambda>s. violatesFlags {PD_DisallowVar, PD_DisallowOperators} (DeclStore s 1))
               (declStateOf (parseDeclSwitch refX 0 (parseDecl refX 0) [] (initState varInUnionBody)))
             = Some True"
      by code_simp
    obtain st1 where e: "parseDeclSwitch refX 0 (parseDecl refX 0) [] (initState varInUnionBody) = Inr (False, [Some 1], st1)"
      using r by (cases "parseDeclSwitch refX 0 (parseDecl refX 0) [] (initState varInUnionBody)") (auto simp: declResultOf_def)
    have d1: "validationDiagnostics {PD_DisallowVar, PD_DisallowOperators} (DeclStore st1 1) = [(1, disallowed_var_decl, [])]"
      using d[unfolded e] by (simp add: declStateOf_def)
    have w1: "violatesFlags {PD_DisallowVar, PD_DisallowOperators} (DeclStore st1 1)"
      using w[unfolded e] by (simp add: declStateOf_def)
    have h: "None \<notin> set ([] :: DeclPtr list)" "[Some 1] \<noteq> ([] :: DeclPtr list)"
      by simp_all
    from C8_parseDecl_validates_and_keeps[OF e h, of "{PD_DisallowVar, PD_DisallowOperators}"] obtain New where
      np: "[Some 1] = [] @ map Some New @ (if last [Some (1::nat)] = None then [None] else [])
         \<and> parseDecl refX (Suc 0) [] {PD_DisallowVar, PD_DisallowOperators} (initState varInUnionBody)
            = Inr (False \<or> last [Some (1::nat)] = None, [] @ map Some New,
                   st1\<lparr>Diags := Diags st1
                         @ concat (map (\<lambda>D. validationDiagnostics {PD_DisallowVar, PD_DisallowOperators} (DeclStore st1 D)) New)\<rparr>)
         \<and> (\<forall>D \<in> set New. violatesFlags {PD_DisallowVar, PD_DisallowOperators} (DeclStore st1 D) \<longrightarrow>
               (\<exists>x \<in> set (validationDiagnostics {PD_DisallowVar, PD_DisallowOperators} (DeclStore st1 D)).
                   fst x = LocStart (DeclStore st1 D)
                 \<and> fst (snd x) \<in> {import_inner_scope, disallowed_var_decl, operator_in_decl}))"
      by (rule exE)
    note n = np[THEN conjunct1] and p = np[THEN conjunct2, THEN conjunct1]
    have "New = [1]"
      using n by auto
    then have "parseDecl refX (Suc 0) [] {PD_DisallowVar, PD_DisallowOperators} (initState varInUnionBody)
            = Inr (False, [Some 1], st1\<lparr>Diags := Diags st1 @ [(1, disallowed_var_decl, [])]\<rparr>)"
      using p d1 by simp
    then show ?thesis
      using e w1 by blast
  qed
  have c: "\<exists>st1. parseDeclSwitch refX 0 (parseDecl refX 0) [] (initState varInUnionBody) = Inr (False, [Some 1], st1)
          \<and> violatesFlags {PD_DisallowOperators} (DeclStore st1 1)
          \<and> parseDecl refX (Suc 0) [] {PD_DisallowOperators} (initState varInUnionBody)
              = Inr (False, [Some 1], st1\<lparr>Diags := Diags st1 @ [(1, operator_in_decl, [])]\<rparr>)"
  proof -
    have r: "declResultOf (parseDeclSwitch refX 0 (parseDecl refX 0) [] (initState varInUnionBody)) = Some (False, [Some 1])"
      by code_simp
    have d: "map_option (\<lambda>s. validationDiagnostics {PD_DisallowOperators} (DeclStore s 1))
               (declStateOf (parseDeclSwitch refX 0 (parseDecl refX 0) [] (initState varInUnionBody)))
             = Some [(1, operator_in_decl, [])]"
      by code_simp
    have w: "map_option (\<lambda>s. violatesFlags {PD_DisallowOperators} (DeclStore s 1))
               (declStateOf (parseDeclSwitch refX 0 (parseDecl refX 0) [] (initState varInUnionBody)))
             = Some True"
      by code_simp
    obtain st1 where e: "parseDeclSwitch refX 0 (parseDecl refX 0) [] (initState varInUnionBody) = Inr (False, [Some 1], st1)"
      using r by (cases "parseDeclSwitch refX 0 (parseDecl refX 0) [] (initState varInUnionBody)") (auto simp: declResultOf_def)
    have d1: "validationDiagnostics {PD_DisallowOperators} (DeclStore st1 1) = [(1, operator_in_decl, [])]"
      using d[unfolded e] by (simp add: declStateOf_def)
    have w1: "violatesFlags {PD_DisallowOperators} (DeclStore st1 1)"
      using w[unfolded e] by (simp add: declStateOf_def)
    have h: "None \<notin> set ([] :: DeclPtr list)" "[Some 1] \<noteq> ([] :: DeclPtr list)"
      by simp_all
    from C8_parseDecl_validates_and_keeps[OF e h, of "{PD_DisallowOperators}"] obtain New where
      np: "[Some 1] = [] @ map Some New @ (if last [Some (1::nat)] = None then [None] else [])
         \<and> parseDecl refX (Suc 0) [] {PD_DisallowOperators} (initState varInUnionBody)
            = Inr (False \<or> last [Some (1::nat)] = None, [] @ map Some New,
                   st1\<lparr>Diags := Diags st1
                         @ concat (map (\<lambda>D. validationDiagnostics {PD_DisallowOperators} (DeclStore st1 D)) New)\<rparr>)
         \<and> (\<forall>D \<in> set New. violatesFlags {PD_DisallowOperators} (DeclStore st1 D) \<longrightarrow>
               (\<exists>x \<in> set (validationDiagnostics {PD_DisallowOperators} (DeclStore st1 D)).
                   fst x = LocStart (DeclStore st1 D)
                 \<and> fst (snd x) \<in> {import_inner_scope, disallowed_var_decl, operator_in_decl}))"
      by (rule exE)
    note n = np[THEN conjunct1] and p = np[THEN conjunct2, THEN conjunct1]
    have "New = [1]"
      using n by auto
    then have "parseDecl refX (Suc 0) [] {PD_DisallowOperators} (initState varInUnionBody)
            = Inr (False, [Some 1], st1\<lparr>Diags := Diags st1 @ [(1, operator_in_decl, [])]\<rparr>)"
      using p d1 by simp
    then show ?thesis
      using e w1 by blast
  qed
  show ?thesis
    by (intro conjI) (rule a, rule b, rule c)
qed


section \<open>The type of a function declaration\<close>

fun containsArrow :: "Type \<Rightarrow> bool" where
  "containsArrow (FunctionType A R) = True"
| "containsArrow (TupleType Fields) = list_ex (\<lambda>F. containsArrow (fst F)) Fields"
| "containsArrow T = False"

lemma isFunctionType_containsArrow: "isFunctionType T \<Longrightarrow> containsArrow T"
  by (cases T) (simp_all add: isFunctionType_def)

text \<open>
  C4: a successfully parsed \<^verbatim>\<open>func\<close> declaration has the type computed from the written
  type \<open>FuncTy0\<close>: what the type parser returns in the state \<open>st7\<close> reached after the
  attributes, the name and, in method syntax, the \<^verbatim>\<open>::\<close> and the second name. When the
  written type is not a function type, in particular when it contains no arrow, the
  computed type takes the written type and returns the empty tuple; and when a receiver
  type \<open>R\<close> is present, the declared type is the function from the one-element tuple
  \<open>(this : R)\<close> to the computed type. The receiver is the one handed in by the protocol
  parser, or else the type named before \<^verbatim>\<open>::\<close> in method syntax.
\<close>

theorem C4_parseDeclFunc_type:
  assumes "parseDeclFunc X ReceiverTy0 st = (Some FD, st')"
  shows "\<exists>Attributes st2 Name0 st3 ReceiverTy st7 FuncTy0 st8.
           parseAttributeList noAttributes (consumeToken st) = (Attributes, st2)
         \<and> parseIdentifier expected_identifier_in_decl [ArgText ''func''] st2 = (Some Name0, st3)
         \<and> ReceiverTy =
             (if ReceiverTy0 \<noteq> None then ReceiverTy0
              else if TokIs st3 tok_coloncolon
              then Some (fst (lookupOrInsertTypeName Name0 (TokLoc (Tok st2)) (consumeToken st3)))
              else None)
         \<and> st7 =
             (if ReceiverTy0 = None \<and> TokIs st3 tok_coloncolon
              then snd (parseIdentifier expected_identifier_in_decl [ArgText ''func'']
                          (snd (lookupOrInsertTypeName Name0 (TokLoc (Tok st2)) (consumeToken st3))))
              else st3)
         \<and> parseType X expected_type st7 = (Some FuncTy0, st8)
         \<and> Name (DeclStore st' FD) =
             (if ReceiverTy0 = None \<and> TokIs st3 tok_coloncolon
              then the (fst (parseIdentifier expected_identifier_in_decl [ArgText ''func'']
                          (snd (lookupOrInsertTypeName Name0 (TokLoc (Tok st2)) (consumeToken st3)))))
              else Name0)
         \<and> Ty (DeclStore st' FD)
             = Some (case ReceiverTy of
                       None \<Rightarrow> (if isFunctionType FuncTy0 then FuncTy0
                                 else FunctionType FuncTy0 (TupleType []))
                     | Some R \<Rightarrow> FunctionType (TupleType [(R, ''this'')])
                                   (if isFunctionType FuncTy0 then FuncTy0
                                    else FunctionType FuncTy0 (TupleType [])))
         \<and> (\<not> containsArrow FuncTy0 \<longrightarrow>
               Ty (DeclStore st' FD)
                 = Some (case ReceiverTy of
                           None \<Rightarrow> FunctionType FuncTy0 (TupleType [])
                         | Some R \<Rightarrow> FunctionType (TupleType [(R, ''this'')])
                                       (FunctionType FuncTy0 (TupleType []))))"
proof -
  define Attributes where "Attributes = fst (parseAttributeList noAttributes (consumeToken st))"
  define st2 where "st2 = snd (parseAttributeList noAttributes (consumeToken st))"
  define Name0 where
    "Name0 = the (fst (parseIdentifier expected_identifier_in_decl [ArgText ''func''] st2))"
  define st3 where "st3 = snd (parseIdentifier expected_identifier_in_decl [ArgText ''func''] st2)"
  define ReceiverTy where
    "ReceiverTy = (if ReceiverTy0 \<noteq> None then ReceiverTy0
                   else if TokIs st3 tok_coloncolon
                   then Some (fst (lookupOrInsertTypeName Name0 (TokLoc (Tok st2)) (consumeToken st3)))
                   else None)"
  define st7 where
    "st7 = (if ReceiverTy0 = None \<and> TokIs st3 tok_coloncolon
            then snd (parseIdentifier expected_identifier_in_decl [ArgText ''func'']
                        (snd (lookupOrInsertTypeName Name0 (TokLoc (Tok st2)) (consumeToken st3))))
            else st3)"
  define FuncName where
    "FuncName = (if ReceiverTy0 = None \<and> TokIs st3 tok_coloncolon
                 then the (fst (parseIdentifier expected_identifier_in_decl [ArgText ''func'']
                          (snd (lookupOrInsertTypeName Name0 (TokLoc (Tok st2)) (consumeToken st3)))))
                 else Name0)"
  define FuncTy0 where "FuncTy0 = the (fst (parseType X expected_type st7))"
  define st8 where "st8 = snd (parseType X expected_type st7)"
  define Computed where
    "Computed = (if isFunctionType FuncTy0 then FuncTy0 else FunctionType FuncTy0 (TupleType []))"
  have core:
    "fst (parseIdentifier expected_identifier_in_decl [ArgText ''func''] st2) = Some Name0
     \<and> fst (parseType X expected_type st7) = Some FuncTy0
     \<and> Name (DeclStore st' FD) = FuncName
     \<and> Ty (DeclStore st' FD)
         = Some (case ReceiverTy of
                   None \<Rightarrow> Computed
                 | Some R \<Rightarrow> FunctionType (TupleType [(R, ''this'')]) Computed)"
    using assms
    unfolding parseDeclFunc_def Let_def st2_def Name0_def st3_def ReceiverTy_def st7_def
      FuncTy0_def Computed_def FuncName_def
    by (auto split: prod.splits option.splits if_split_asm
             simp: newDecl_def addToScope_def consumeIf_def restoreScope_def setBody_def)
  have a: "parseAttributeList noAttributes (consumeToken st) = (Attributes, st2)"
    by (simp add: Attributes_def st2_def)
  have b: "parseIdentifier expected_identifier_in_decl [ArgText ''func''] st2 = (Some Name0, st3)"
    using core by (simp add: st3_def prod_eq_iff)
  have c: "parseType X expected_type st7 = (Some FuncTy0, st8)"
    using core by (simp add: st8_def prod_eq_iff)
  have t: "Ty (DeclStore st' FD)
             = Some (case ReceiverTy of
                       None \<Rightarrow> (if isFunctionType FuncTy0 then FuncTy0
                                 else FunctionType FuncTy0 (TupleType []))
                     | Some R \<Rightarrow> FunctionType (TupleType [(R, ''this'')])
                                   (if isFunctionType FuncTy0 then FuncTy0
                                    else FunctionType FuncTy0 (TupleType [])))"
    using core unfolding Computed_def by simp
  have d: "\<not> containsArrow FuncTy0 \<longrightarrow>
               Ty (DeclStore st' FD)
                 = Some (case ReceiverTy of
                           None \<Rightarrow> FunctionType FuncTy0 (TupleType [])
                         | Some R \<Rightarrow> FunctionType (TupleType [(R, ''this'')])
                                       (FunctionType FuncTy0 (TupleType [])))"
    using isFunctionType_containsArrow[of FuncTy0] t by auto
  show ?thesis
  proof (intro exI conjI)
    show "parseAttributeList noAttributes (consumeToken st) = (Attributes, st2)"
      by (rule a)
    show "parseIdentifier expected_identifier_in_decl [ArgText ''func''] st2 = (Some Name0, st3)"
      by (rule b)
    show "ReceiverTy =
             (if ReceiverTy0 \<noteq> None then ReceiverTy0
              else if TokIs st3 tok_coloncolon
              then Some (fst (lookupOrInsertTypeName Name0 (TokLoc (Tok st2)) (consumeToken st3)))
              else None)"
      by (rule ReceiverTy_def)
    show "st7 =
             (if ReceiverTy0 = None \<and> TokIs st3 tok_coloncolon
              then snd (parseIdentifier expected_identifier_in_decl [ArgText ''func'']
                          (snd (lookupOrInsertTypeName Name0 (TokLoc (Tok st2)) (consumeToken st3))))
              else st3)"
      by (rule st7_def)
    show "parseType X expected_type st7 = (Some FuncTy0, st8)"
      by (rule c)
    show "Name (DeclStore st' FD) =
             (if ReceiverTy0 = None \<and> TokIs st3 tok_coloncolon
              then the (fst (parseIdentifier expected_identifier_in_decl [ArgText ''func'']
                          (snd (lookupOrInsertTypeName Name0 (TokLoc (Tok st2)) (consumeToken st3)))))
              else Name0)"
      using core by (simp add: FuncName_def)
    show "Ty (DeclStore st' FD)
             = Some (case ReceiverTy of
                       None \<Rightarrow> (if isFunctionType FuncTy0 then FuncTy0
                                 else FunctionType FuncTy0 (TupleType []))
                     | Some R \<Rightarrow> FunctionType (TupleType [(R, ''this'')])
                                   (if isFunctionType FuncTy0 then FuncTy0
                                    else FunctionType FuncTy0 (TupleType [])))"
      by (rule t)
    show "\<not> containsArrow FuncTy0 \<longrightarrow>
               Ty (DeclStore st' FD)
                 = Some (case ReceiverTy of
                           None \<Rightarrow> FunctionType FuncTy0 (TupleType [])
                         | Some R \<Rightarrow> FunctionType (TupleType [(R, ''this'')])
                                       (FunctionType FuncTy0 (TupleType [])))"
      by (rule d)
  qed
qed

definition funcPointArea :: "Token list" where
  \<comment> \<open>\<^verbatim>\<open>func Point::area() -> Int {}\<close>\<close>
  "funcPointArea =
     lexed 1 [(tok_kw_func, ''func''), (tok_identifier, ''Point''), (tok_coloncolon, ''::''),
              (tok_identifier, ''area''), (tok_l_paren, ''(''), (tok_r_paren, '')''),
              (tok_arrow, ''->''), (tok_identifier, ''Int''), (tok_l_brace, ''{''), (tok_r_brace, ''}'')]"

definition funcNoArrow :: "Token list" where
  \<comment> \<open>\<^verbatim>\<open>func f(Int)\<close>\<close>
  "funcNoArrow =
     lexed 1 [(tok_kw_func, ''func''), (tok_identifier, ''f''), (tok_l_paren, ''(''),
              (tok_identifier, ''Int''), (tok_r_paren, '')'')]"

lemma parseDeclFunc_examples:
  "fst (parseDeclFunc refX None (initState funcPointArea)) = Some 2"
  "Ty (DeclStore (snd (parseDeclFunc refX None (initState funcPointArea))) 2)
     = Some (FunctionType (TupleType [(NameAliasType 0, ''this'')])
               (FunctionType (TupleType []) (NameAliasType 1)))"
  "Name (DeclStore (snd (parseDeclFunc refX None (initState funcPointArea))) 0) = ''Point''"
  "Name (DeclStore (snd (parseDeclFunc refX None (initState funcPointArea))) 1) = ''Int''"
  "Name (DeclStore (snd (parseDeclFunc refX None (initState funcPointArea))) 2) = ''area''"
  "fst (parseDeclFunc refX None (initState funcNoArrow)) = Some 1"
  "Ty (DeclStore (snd (parseDeclFunc refX None (initState funcNoArrow))) 1)
     = Some (FunctionType (TupleType [(NameAliasType 0, [])]) (TupleType []))"
  "Name (DeclStore (snd (parseDeclFunc refX None (initState funcNoArrow))) 0) = ''Int''"
  "Name (DeclStore (snd (parseDeclFunc refX None (initState funcNoArrow))) 1) = ''f''"
  by code_simp+

theorem C4_parseDeclFunc_type_witness:
  "(\<exists>st' ReceiverTy st7 FuncTy0 st8.
      parseDeclFunc refX None (initState funcPointArea) = (Some 2, st')
    \<and> parseType refX expected_type st7 = (Some FuncTy0, st8)
    \<and> Toks st7 = drop 4 funcPointArea
    \<and> FuncTy0 = FunctionType (TupleType []) (NameAliasType 1)
    \<and> ReceiverTy = Some (NameAliasType 0)
    \<and> Name (DeclStore st' 0) = ''Point''
    \<and> Name (DeclStore st' 2) = ''area''
    \<and> Ty (DeclStore st' 2)
        = Some (case ReceiverTy of
                  None \<Rightarrow> FuncTy0
                | Some R \<Rightarrow> FunctionType (TupleType [(R, ''this'')]) FuncTy0))
   \<and> (\<exists>st' st7 FuncTy0 st8.
      parseDeclFunc refX None (initState funcNoArrow) = (Some 1, st')
    \<and> parseType refX expected_type st7 = (Some FuncTy0, st8)
    \<and> Toks st7 = drop 2 funcNoArrow
    \<and> FuncTy0 = TupleType [(NameAliasType 0, [])]
    \<and> \<not> containsArrow FuncTy0
    \<and> Name (DeclStore st' 1) = ''f''
    \<and> Ty (DeclStore st' 1) = Some (FunctionType FuncTy0 (TupleType [])))"
proof (intro conjI)
  let ?i = "initState funcPointArea"
  let ?s2 = "snd (parseAttributeList noAttributes (consumeToken ?i))"
  let ?n0 = "the (fst (parseIdentifier expected_identifier_in_decl [ArgText ''func''] ?s2))"
  let ?s3 = "snd (parseIdentifier expected_identifier_in_decl [ArgText ''func''] ?s2)"
  let ?s7 = "if (None :: Type option) = None \<and> TokIs ?s3 tok_coloncolon
             then snd (parseIdentifier expected_identifier_in_decl [ArgText ''func'']
                         (snd (lookupOrInsertTypeName ?n0 (TokLoc (Tok ?s2)) (consumeToken ?s3))))
             else ?s3"
  let ?r = "if (None :: Type option) \<noteq> None then None
            else if TokIs ?s3 tok_coloncolon
            then Some (fst (lookupOrInsertTypeName ?n0 (TokLoc (Tok ?s2)) (consumeToken ?s3)))
            else None"
  have k: "Toks ?s7 = drop 4 funcPointArea"
    "fst (parseType refX expected_type ?s7) = Some (FunctionType (TupleType []) (NameAliasType 1))"
    "?r = Some (NameAliasType 0)"
    by code_simp+
  obtain st' where e: "parseDeclFunc refX None ?i = (Some 2, st')"
    using parseDeclFunc_examples(1) by (cases "parseDeclFunc refX None ?i") auto
  from C4_parseDeclFunc_type[OF e] obtain Attributes st2 Name0 st3 ReceiverTy st7 FuncTy0 st8 where
    h: "parseAttributeList noAttributes (consumeToken ?i) = (Attributes, st2)"
      "parseIdentifier expected_identifier_in_decl [ArgText ''func''] st2 = (Some Name0, st3)"
      "ReceiverTy =
             (if (None :: Type option) \<noteq> None then None
              else if TokIs st3 tok_coloncolon
              then Some (fst (lookupOrInsertTypeName Name0 (TokLoc (Tok st2)) (consumeToken st3)))
              else None)"
      "st7 =
             (if (None :: Type option) = None \<and> TokIs st3 tok_coloncolon
              then snd (parseIdentifier expected_identifier_in_decl [ArgText ''func'']
                          (snd (lookupOrInsertTypeName Name0 (TokLoc (Tok st2)) (consumeToken st3))))
              else st3)"
      "parseType refX expected_type st7 = (Some FuncTy0, st8)"
      "Ty (DeclStore st' 2)
             = Some (case ReceiverTy of
                       None \<Rightarrow> (if isFunctionType FuncTy0 then FuncTy0
                                 else FunctionType FuncTy0 (TupleType []))
                     | Some R \<Rightarrow> FunctionType (TupleType [(R, ''this'')])
                                   (if isFunctionType FuncTy0 then FuncTy0
                                    else FunctionType FuncTy0 (TupleType [])))"
    by blast
  have s: "st2 = ?s2" "Name0 = ?n0" "st3 = ?s3"
    using h(1,2) by simp_all
  have s7: "st7 = ?s7" and r: "ReceiverTy = ?r"
    using h(3,4) unfolding s by simp_all
  have f: "FuncTy0 = FunctionType (TupleType []) (NameAliasType 1)"
    using h(5) k(2) unfolding s7 by simp
  have n: "Name (DeclStore st' 0) = ''Point''" "Name (DeclStore st' 2) = ''area''"
    using parseDeclFunc_examples(3,5) e by simp_all
  have t: "Ty (DeclStore st' 2)
        = Some (case ReceiverTy of
                  None \<Rightarrow> FuncTy0
                | Some R \<Rightarrow> FunctionType (TupleType [(R, ''this'')]) FuncTy0)"
    using h(6) unfolding f by (simp add: isFunctionType_def)
  show "\<exists>st' ReceiverTy st7 FuncTy0 st8.
      parseDeclFunc refX None (initState funcPointArea) = (Some 2, st')
    \<and> parseType refX expected_type st7 = (Some FuncTy0, st8)
    \<and> Toks st7 = drop 4 funcPointArea
    \<and> FuncTy0 = FunctionType (TupleType []) (NameAliasType 1)
    \<and> ReceiverTy = Some (NameAliasType 0)
    \<and> Name (DeclStore st' 0) = ''Point''
    \<and> Name (DeclStore st' 2) = ''area''
    \<and> Ty (DeclStore st' 2)
        = Some (case ReceiverTy of
                  None \<Rightarrow> FuncTy0
                | Some R \<Rightarrow> FunctionType (TupleType [(R, ''this'')]) FuncTy0)"
  proof (intro exI conjI)
    show "parseDeclFunc refX None (initState funcPointArea) = (Some 2, st')" by (rule e)
    show "parseType refX expected_type st7 = (Some FuncTy0, st8)" by (rule h(5))
    show "Toks st7 = drop 4 funcPointArea" using k(1) s7 by simp
    show "FuncTy0 = FunctionType (TupleType []) (NameAliasType 1)" by (rule f)
    show "ReceiverTy = Some (NameAliasType 0)" using k(3) r by simp
    show "Name (DeclStore st' 0) = ''Point''" by (rule n(1))
    show "Name (DeclStore st' 2) = ''area''" by (rule n(2))
    show "Ty (DeclStore st' 2)
        = Some (case ReceiverTy of
                  None \<Rightarrow> FuncTy0
                | Some R \<Rightarrow> FunctionType (TupleType [(R, ''this'')]) FuncTy0)" by (rule t)
  qed
next
  let ?i = "initState funcNoArrow"
  let ?s2 = "snd (parseAttributeList noAttributes (consumeToken ?i))"
  let ?n0 = "the (fst (parseIdentifier expected_identifier_in_decl [ArgText ''func''] ?s2))"
  let ?s3 = "snd (parseIdentifier expected_identifier_in_decl [ArgText ''func''] ?s2)"
  let ?s7 = "if (None :: Type option) = None \<and> TokIs ?s3 tok_coloncolon
             then snd (parseIdentifier expected_identifier_in_decl [ArgText ''func'']
                         (snd (lookupOrInsertTypeName ?n0 (TokLoc (Tok ?s2)) (consumeToken ?s3))))
             else ?s3"
  let ?r = "if (None :: Type option) \<noteq> None then None
            else if TokIs ?s3 tok_coloncolon
            then Some (fst (lookupOrInsertTypeName ?n0 (TokLoc (Tok ?s2)) (consumeToken ?s3)))
            else None"
  have k: "Toks ?s7 = drop 2 funcNoArrow"
    "fst (parseType refX expected_type ?s7) = Some (TupleType [(NameAliasType 0, [])])"
    "?r = None"
    by code_simp+
  obtain st' where e: "parseDeclFunc refX None ?i = (Some 1, st')"
    using parseDeclFunc_examples(6) by (cases "parseDeclFunc refX None ?i") auto
  from C4_parseDeclFunc_type[OF e] obtain Attributes st2 Name0 st3 ReceiverTy st7 FuncTy0 st8 where
    h: "parseAttributeList noAttributes (consumeToken ?i) = (Attributes, st2)"
      "parseIdentifier expected_identifier_in_decl [ArgText ''func''] st2 = (Some Name0, st3)"
      "ReceiverTy =
             (if (None :: Type option) \<noteq> None then None
              else if TokIs st3 tok_coloncolon
              then Some (fst (lookupOrInsertTypeName Name0 (TokLoc (Tok st2)) (consumeToken st3)))
              else None)"
      "st7 =
             (if (None :: Type option) = None \<and> TokIs st3 tok_coloncolon
              then snd (parseIdentifier expected_identifier_in_decl [ArgText ''func'']
                          (snd (lookupOrInsertTypeName Name0 (TokLoc (Tok st2)) (consumeToken st3))))
              else st3)"
      "parseType refX expected_type st7 = (Some FuncTy0, st8)"
      "\<not> containsArrow FuncTy0 \<longrightarrow>
               Ty (DeclStore st' 1)
                 = Some (case ReceiverTy of
                           None \<Rightarrow> FunctionType FuncTy0 (TupleType [])
                         | Some R \<Rightarrow> FunctionType (TupleType [(R, ''this'')])
                                       (FunctionType FuncTy0 (TupleType [])))"
    by blast
  have s: "st2 = ?s2" "Name0 = ?n0" "st3 = ?s3"
    using h(1,2) by simp_all
  have s7: "st7 = ?s7" and r: "ReceiverTy = ?r"
    using h(3,4) unfolding s by simp_all
  have f: "FuncTy0 = TupleType [(NameAliasType 0, [])]"
    using h(5) k(2) unfolding s7 by simp
  have na: "\<not> containsArrow FuncTy0"
    unfolding f by simp
  have rn: "ReceiverTy = None"
    using k(3) r by simp
  have n: "Name (DeclStore st' 1) = ''f''"
    using parseDeclFunc_examples(9) e by simp
  have t: "Ty (DeclStore st' 1) = Some (FunctionType FuncTy0 (TupleType []))"
    using h(6) na rn by simp
  show "\<exists>st' st7 FuncTy0 st8.
      parseDeclFunc refX None (initState funcNoArrow) = (Some 1, st')
    \<and> parseType refX expected_type st7 = (Some FuncTy0, st8)
    \<and> Toks st7 = drop 2 funcNoArrow
    \<and> FuncTy0 = TupleType [(NameAliasType 0, [])]
    \<and> \<not> containsArrow FuncTy0
    \<and> Name (DeclStore st' 1) = ''f''
    \<and> Ty (DeclStore st' 1) = Some (FunctionType FuncTy0 (TupleType []))"
  proof (intro exI conjI)
    show "parseDeclFunc refX None (initState funcNoArrow) = (Some 1, st')" by (rule e)
    show "parseType refX expected_type st7 = (Some FuncTy0, st8)" by (rule h(5))
    show "Toks st7 = drop 2 funcNoArrow" using k(1) s7 by simp
    show "FuncTy0 = TupleType [(NameAliasType 0, [])]" by (rule f)
    show "\<not> containsArrow FuncTy0" by (rule na)
    show "Name (DeclStore st' 1) = ''f''" by (rule n)
    show "Ty (DeclStore st' 1) = Some (FunctionType FuncTy0 (TupleType []))" by (rule t)
  qed
qed

text \<open>
  The other form of the specification's example: a free function whose written type has
  an arrow keeps the written type, unwrapped.
\<close>

lemma C4_examples:
  "map Ty (allDecls (snd (parseDeclFunc refX None (initState
      (lexed 1 [(tok_kw_func, ''func''), (tok_identifier, ''area''), (tok_l_paren, ''(''),
                (tok_identifier, ''Point''), (tok_r_paren, '')''), (tok_arrow, ''->''),
                (tok_identifier, ''Int''), (tok_l_brace, ''{''), (tok_r_brace, ''}'')])))))
     = [None, None,
        Some (FunctionType (TupleType [(NameAliasType 0, [])]) (NameAliasType 1))]"
  by code_simp


section \<open>Protocol bodies\<close>



definition protocolPBody :: "Token list" where
  \<comment> \<open>\<^verbatim>\<open>{ func f() -> Int }\<close>, the body of \<^verbatim>\<open>protocol P\<close>\<close>
  "protocolPBody =
     lexed 3 [(tok_l_brace, ''{''), (tok_kw_func, ''func''), (tok_identifier, ''f''),
              (tok_l_paren, ''(''), (tok_r_paren, '')''), (tok_arrow, ''->''),
              (tok_identifier, ''Int''), (tok_r_brace, ''}'')]"



lemma C6_example:
  "declResultOf (parseDecl refX 3 [] {PD_AllowImport}
     (initState (lexed 1 [(tok_kw_protocol, ''protocol''), (tok_identifier, ''P'')] @ protocolPBody)))
     = Some (False, [Some 0])"
  "map_option allDecls (declStateOf (parseDecl refX 3 [] {PD_AllowImport}
     (initState (lexed 1 [(tok_kw_protocol, ''protocol''), (tok_identifier, ''P'')] @ protocolPBody))))
     = Some [\<lparr>Kind = TypeAliasDecl, LocStart = 2, Name = ''P'', Ty = None,
               Context = TranslationUnitDC, UnderlyingTy = Some (ProtocolType 0)\<rparr>,
             \<lparr>Kind = TypeAliasDecl, LocStart = 9, Name = ''Int'', Ty = None,
               Context = TranslationUnitDC, UnderlyingTy = None\<rparr>,
             \<lparr>Kind = FuncDecl None noAttributes, LocStart = 4, Name = ''f'',
               Ty = Some (FunctionType (TupleType [(NameAliasType 0, ''this'')])
                            (FunctionType (TupleType []) (NameAliasType 1))),
               Context = ProtocolTypeDC 0, UnderlyingTy = None\<rparr>]"
  by code_simp+

end
